theory Spec2Isabelle
  imports Main
begin

section \<open>Outcomes of a call\<close>

text \<open>
  A Go call of the image provider ends in one of four ways: it returns a value, it
  returns an \<open>error\<close> (here: its message), it panics on a nil pointer, or it ends the
  process through \<open>log.Fatalf\<close>. The last three are the constructors of \<open>failure\<close>;
  a result is \<open>failure + 'a\<close>.
\<close>

datatype failure = Err string | NilPanic | Fatal string

text \<open>An instant (\<open>time.Time\<close>, \<open>UnixNano\<close>) and a duration, both in nanoseconds.\<close>

type_synonym time = int

section \<open>The expiring cache (patrickmn/go-cache)\<close>

text \<open>
  An item holds the stored object and the instant it expires (0: never). \<open>Get\<close> reports
  an item whose expiration has passed as absent, whether or not the janitor has removed
  it yet; \<open>Set\<close> with a positive duration stamps the item with now + duration.
\<close>

record Item =
  Object :: string
  Expiration :: int

type_synonym cache = "string \<Rightarrow> Item option"

definition cache_Get :: "cache \<Rightarrow> time \<Rightarrow> string \<Rightarrow> string option" where
  "cache_Get c now k =
     (case c k of
        None \<Rightarrow> None
      | Some item \<Rightarrow>
          if Expiration item > 0 \<and> now > Expiration item then None
          else Some (Object item))"

definition cache_Set :: "cache \<Rightarrow> time \<Rightarrow> string \<Rightarrow> string \<Rightarrow> int \<Rightarrow> cache" where
  "cache_Set c now k x d =
     c(k \<mapsto> \<lparr>Object = x, Expiration = (if d > 0 then now + d else 0)\<rparr>)"

definition imageExpirationInterval :: int where
  "imageExpirationInterval = 3 * 24 * 3600 * 1000000000"

section \<open>The change monitor\<close>

text \<open>
  \<open>pretty.ChangeMonitor\<close> of the karpenter library remembers, for each key, a hash of
  the last value seen; the model remembers the value itself. \<open>HasChanged key value\<close>
  tells whether the value differs from the remembered one and remembers it. The provider
  uses the answer only to decide whether a log line is written.
\<close>

definition HasChanged :: "(string \<Rightarrow> string option) \<Rightarrow> string \<Rightarrow> string
    \<Rightarrow> bool \<times> (string \<Rightarrow> string option)" where
  "HasChanged m key v = (m key \<noteq> Some v, m(key \<mapsto> v))"

section \<open>Data\<close>

record CustomImageTerm =
  GallerySubscriptionID :: string
  GalleryResourceGroupName :: string
  GalleryName :: string
  Name :: string
  Version :: string
  DistroName :: string

record AKSNodeClassSpec =
  CustomImageTerm :: CustomImageTerm

text \<open>\<open>v1alpha2.CustomImageTerm{}\<close>: every field is the empty string.\<close>

definition CustomImageTerm_zero :: CustomImageTerm where
  "CustomImageTerm_zero =
     \<lparr>GallerySubscriptionID = [], GalleryResourceGroupName = [], GalleryName = [],
      Name = [], Version = [], DistroName = []\<rparr>"

text \<open>An entry of an image family's catalog; \<open>'r\<close> is the type of requirement sets.\<close>

record 'r DefaultImageOutput =
  PublicGalleryURL :: string
  GalleryResourceGroup :: string
  di_GalleryName :: string
  ImageDefinition :: string
  Requirements :: 'r
  Distro :: string

record 'r InstanceType =
  it_Name :: string
  it_Requirements :: 'r

text \<open>The option \<open>Get\<close> passes to \<open>Requirements.Compatible\<close>.\<close>

datatype CompatibilityOption = AllowUndefinedWellKnownAndRestrictedLabels

text \<open>\<open>Requirements.Compatible\<close> belongs to the scheduling library: it is a parameter
  of the model, giving \<open>None\<close> for a nil error.\<close>

type_synonym 'r compatible = "'r \<Rightarrow> 'r \<Rightarrow> CompatibilityOption list \<Rightarrow> string option"

text \<open>\<open>options.FromContext(ctx)\<close>.\<close>

record Options =
  UseSIG :: bool
  SIGSubscriptionID :: string

record NodeImageVersion =
  SKU :: string
  niv_Version :: string

text \<open>\<open>armcompute.CommunityGalleryImageVersion\<close>: five pointer fields.\<close>

record CommunityGalleryImageVersionProperties =
  civp_PublishedDate :: "time option"

record CommunityGalleryImageVersion =
  civ_Identifier :: "string option"
  civ_Properties :: "CommunityGalleryImageVersionProperties option"
  civ_Location :: "string option"
  civ_Name :: "string option"
  civ_Type :: "string option"

text \<open>\<open>armcompute.GalleryImageVersion\<close>: the fields the provider reads.\<close>

record GalleryImageVersionPublishingProfile =
  PublishedDate :: "time option"

record GalleryImageVersionProperties =
  PublishingProfile :: "GalleryImageVersionPublishingProfile option"

record GalleryImageVersion =
  giv_ID :: "string option"
  giv_Properties :: "GalleryImageVersionProperties option"

section \<open>The remote services\<close>

text \<open>
  A page of a listing is a slice of pointers (\<open>None\<close>: nil); fetching a page returns the
  page or an error. A pager reports \<open>More()\<close> before its first page and after every
  page that has a successor, so a listing is the result of its first \<open>NextPage\<close> and
  the results of the following ones. A listing has finitely many pages; the loops over
  it are structural recursions on the list of its pages.
\<close>

type_synonym 'a page = "string + 'a option list"

datatype 'a Pager = Pager (FirstPage: "'a page") (NextPages: "'a page list")

definition pages :: "'a Pager \<Rightarrow> 'a page list" where
  "pages pg = FirstPage pg # NextPages pg"

record Remote =
  NewListPager :: "string \<Rightarrow> string \<Rightarrow> string \<Rightarrow> CommunityGalleryImageVersion Pager"
  NodeImageVersions_List :: "string \<Rightarrow> string \<Rightarrow> string + NodeImageVersion list"
  NewDefaultAzureCredential :: "string option"
  NewClientFactory :: "string \<Rightarrow> string option"
  GalleryImageVersions_Get ::
    "string \<Rightarrow> string \<Rightarrow> string \<Rightarrow> string \<Rightarrow> string \<Rightarrow> string + GalleryImageVersion"
  NewListByGalleryImagePager ::
    "string \<Rightarrow> string \<Rightarrow> string \<Rightarrow> string \<Rightarrow> GalleryImageVersion Pager"

text \<open>The remote calls a resolution makes, in order.\<close>

datatype remote_call =
    CommunityNextPage string string string
  | NodeImageVersionsList string string
  | GalleryGet string string string string string
  | GalleryNextPage string string string string

section \<open>The provider\<close>

text \<open>\<open>calls\<close> and \<open>logs\<close> record what the provider did to the outside: the remote
  calls it issued and the image ids it announced.\<close>

record Provider =
  location :: string
  subscription :: string
  imageCache :: cache
  cm :: "string \<Rightarrow> string option"
  calls :: "remote_call list"
  logs :: "string list"

definition sharedImageKey :: "string \<Rightarrow> string \<Rightarrow> string" where
  "sharedImageKey g d = g @ ''/'' @ d"

definition communityImageKey :: "string \<Rightarrow> string \<Rightarrow> string" where
  "communityImageKey g d = g @ ''/'' @ d"

definition sharedImageGalleryImageIDFormat ::
    "string \<Rightarrow> string \<Rightarrow> string \<Rightarrow> string \<Rightarrow> string \<Rightarrow> string" where
  "sharedImageGalleryImageIDFormat s rg g i v =
     ''/subscriptions/'' @ s @ ''/resourceGroups/'' @ rg
     @ ''/providers/Microsoft.Compute/galleries/'' @ g @ ''/images/'' @ i
     @ ''/versions/'' @ v"

definition communityImageIDFormat :: "string \<Rightarrow> string \<Rightarrow> string \<Rightarrow> string" where
  "communityImageIDFormat g i v =
     ''/CommunityGalleries/'' @ g @ ''/images/'' @ i @ ''/versions/'' @ v"

definition BuildImageIDCIG :: "string \<Rightarrow> string \<Rightarrow> string \<Rightarrow> string" where
  "BuildImageIDCIG publicGalleryURL communityImageName imageVersion =
     communityImageIDFormat publicGalleryURL communityImageName imageVersion"

subsection \<open>Paging\<close>

text \<open>
  \<open>for pager.More() { page, err := pager.NextPage(..); if err != nil { return "", err };
  for _, v := range page.Value { .. } }\<close>: every \<open>NextPage\<close> is one remote call \<open>c\<close>;
  \<open>scan\<close> is the inner loop over one page.
\<close>

fun pager_loop :: "remote_call \<Rightarrow> ('c \<Rightarrow> 'a option list \<Rightarrow> failure + 'c) \<Rightarrow> 'c
    \<Rightarrow> 'a page list \<Rightarrow> remote_call list \<Rightarrow> (failure + 'c) \<times> remote_call list" where
  "pager_loop c scan cand [] tr = (Inr cand, tr)"
| "pager_loop c scan cand (pg # pgs) tr =
     (case pg of
        Inl e \<Rightarrow> (Inl (Err e), tr @ [c])
      | Inr vs \<Rightarrow>
          (case scan cand vs of
             Inl f \<Rightarrow> (Inl f, tr @ [c])
           | Inr cand' \<Rightarrow> pager_loop c scan cand' pgs (tr @ [c])))"

subsection \<open>Community gallery\<close>

definition CommunityGalleryImageVersion_zero :: CommunityGalleryImageVersion where
  "CommunityGalleryImageVersion_zero =
     \<lparr>civ_Identifier = None, civ_Properties = None, civ_Location = None,
      civ_Name = None, civ_Type = None\<rparr>"

definition civ_PublishedDate :: "CommunityGalleryImageVersion \<Rightarrow> failure + time" where
  "civ_PublishedDate v =
     (case civ_Properties v of
        None \<Rightarrow> Inl NilPanic
      | Some props \<Rightarrow>
          (case civp_PublishedDate props of None \<Rightarrow> Inl NilPanic | Some d \<Rightarrow> Inr d))"

text \<open>The loop's condition: \<open>lo.IsEmpty(topCandidate) ||
  imageVersion.Properties.PublishedDate.After(*topCandidate.Properties.PublishedDate)\<close>.\<close>

definition community_newer :: "CommunityGalleryImageVersion
    \<Rightarrow> CommunityGalleryImageVersion option \<Rightarrow> failure + bool" where
  "community_newer topCandidate iv =
     (if topCandidate = CommunityGalleryImageVersion_zero then Inr True
      else case iv of
             None \<Rightarrow> Inl NilPanic
           | Some v \<Rightarrow>
               (case civ_PublishedDate v of
                  Inl f \<Rightarrow> Inl f
                | Inr d \<Rightarrow>
                    (case civ_PublishedDate topCandidate of
                       Inl f \<Rightarrow> Inl f
                     | Inr dc \<Rightarrow> Inr (d > dc))))"

fun community_scan :: "CommunityGalleryImageVersion
    \<Rightarrow> CommunityGalleryImageVersion option list \<Rightarrow> failure + CommunityGalleryImageVersion" where
  "community_scan topCandidate [] = Inr topCandidate"
| "community_scan topCandidate (iv # ivs) =
     (case community_newer topCandidate iv of
        Inl f \<Rightarrow> Inl f
      | Inr b \<Rightarrow>
          if b then (case iv of None \<Rightarrow> Inl NilPanic | Some v \<Rightarrow> community_scan v ivs)
          else community_scan topCandidate ivs)"

definition FromPtr :: "string option \<Rightarrow> string" where
  "FromPtr x = (case x of None \<Rightarrow> [] | Some s \<Rightarrow> s)"

definition latestNodeImageVersionCommunity :: "Remote \<Rightarrow> Provider \<Rightarrow> string \<Rightarrow> string
    \<Rightarrow> (failure + string) \<times> Provider" where
  "latestNodeImageVersionCommunity r p publicGalleryURL communityImageName =
     (let pager = NewListPager r (location p) publicGalleryURL communityImageName;
          (res, tr) = pager_loop
             (CommunityNextPage (location p) publicGalleryURL communityImageName)
             community_scan CommunityGalleryImageVersion_zero (pages pager) (calls p)
      in (case res of
            Inl f \<Rightarrow> Inl f
          | Inr topCandidate \<Rightarrow> Inr (FromPtr (civ_Name topCandidate)),
          p\<lparr>calls := tr\<rparr>))"

definition getCIGImageID :: "Remote \<Rightarrow> Provider \<Rightarrow> string \<Rightarrow> string
    \<Rightarrow> (failure + string) \<times> Provider" where
  "getCIGImageID r p publicGalleryURL communityImageName =
     (case latestNodeImageVersionCommunity r p publicGalleryURL communityImageName of
        (Inl f, p') \<Rightarrow> (Inl f, p')
      | (Inr imageVersion, p') \<Rightarrow>
          (Inr (BuildImageIDCIG publicGalleryURL communityImageName imageVersion), p'))"

subsection \<open>Shared gallery\<close>

fun getSIGImageID_versions :: "Options \<Rightarrow> 'r DefaultImageOutput \<Rightarrow> NodeImageVersion list
    \<Rightarrow> failure + string" where
  "getSIGImageID_versions ctx imgStub [] =
     Inl (Err (''failed to get the latest version of the image '' @ ImageDefinition imgStub))"
| "getSIGImageID_versions ctx imgStub (version # versions) =
     (if ImageDefinition imgStub = SKU version
      then Inr (sharedImageGalleryImageIDFormat (SIGSubscriptionID ctx)
                  (GalleryResourceGroup imgStub) (di_GalleryName imgStub)
                  (ImageDefinition imgStub) (niv_Version version))
      else getSIGImageID_versions ctx imgStub versions)"

definition getSIGImageID :: "Remote \<Rightarrow> Options \<Rightarrow> Provider \<Rightarrow> 'r DefaultImageOutput
    \<Rightarrow> (failure + string) \<times> Provider" where
  "getSIGImageID r ctx p imgStub =
     (let p' = p\<lparr>calls := calls p @ [NodeImageVersionsList (location p) (subscription p)]\<rparr>
      in case NodeImageVersions_List r (location p) (subscription p) of
           Inl e \<Rightarrow> (Inl (Err e), p')
         | Inr versions \<Rightarrow> (getSIGImageID_versions ctx imgStub versions, p'))"

definition resolveImageID :: "Remote \<Rightarrow> Options \<Rightarrow> Provider \<Rightarrow> 'r DefaultImageOutput \<Rightarrow> bool
    \<Rightarrow> (failure + string) \<times> Provider" where
  "resolveImageID r ctx p defaultImage useSIG =
     (if useSIG then getSIGImageID r ctx p defaultImage
      else getCIGImageID r p (PublicGalleryURL defaultImage) (ImageDefinition defaultImage))"

definition GetLatestImageID_key :: "Options \<Rightarrow> 'r DefaultImageOutput \<Rightarrow> string" where
  "GetLatestImageID_key ctx defaultImage =
     (if UseSIG ctx
      then sharedImageKey (di_GalleryName defaultImage) (ImageDefinition defaultImage)
      else communityImageKey (PublicGalleryURL defaultImage) (ImageDefinition defaultImage))"

definition GetLatestImageID :: "Remote \<Rightarrow> time \<Rightarrow> Options \<Rightarrow> Provider \<Rightarrow> 'r DefaultImageOutput
    \<Rightarrow> (failure + string) \<times> Provider" where
  "GetLatestImageID r now ctx p defaultImage =
     (let key = GetLatestImageID_key ctx defaultImage
      in case cache_Get (imageCache p) now key of
           Some imageID \<Rightarrow> (Inr imageID, p)
         | None \<Rightarrow>
             (case resolveImageID r ctx p defaultImage (UseSIG ctx) of
                (Inl f, p') \<Rightarrow> (Inl f, p')
              | (Inr imageID, p') \<Rightarrow>
                  (Inr imageID,
                   p'\<lparr>imageCache :=
                         cache_Set (imageCache p') now key imageID imageExpirationInterval,
                      logs := logs p' @ [imageID]\<rparr>)))"

subsection \<open>Custom images\<close>

text \<open>The cache key of a custom image term: the source formats it with a literal that is
  the pattern of \<open>sharedImageGalleryImageIDFormat\<close>.\<close>

definition GetCustomImageID_key :: "CustomImageTerm \<Rightarrow> string" where
  "GetCustomImageID_key imageTerm =
     sharedImageGalleryImageIDFormat (GallerySubscriptionID imageTerm)
       (GalleryResourceGroupName imageTerm) (GalleryName imageTerm) (Name imageTerm)
       (Version imageTerm)"

definition GalleryImageVersion_zero :: GalleryImageVersion where
  "GalleryImageVersion_zero = \<lparr>giv_ID = None, giv_Properties = None\<rparr>"

definition giv_PublishedDate :: "GalleryImageVersion \<Rightarrow> failure + time" where
  "giv_PublishedDate v =
     (case giv_Properties v of
        None \<Rightarrow> Inl NilPanic
      | Some props \<Rightarrow>
          (case PublishingProfile props of
             None \<Rightarrow> Inl NilPanic
           | Some prof \<Rightarrow>
               (case PublishedDate prof of None \<Rightarrow> Inl NilPanic | Some d \<Rightarrow> Inr d)))"

text \<open>The loop's condition: \<open>lo.IsEmpty(imageCandidate.ID) ||
  imageVersion.Properties.PublishingProfile.PublishedDate.After(
  *imageCandidate.Properties.PublishingProfile.PublishedDate)\<close>.\<close>

definition custom_newer :: "GalleryImageVersion \<Rightarrow> GalleryImageVersion option
    \<Rightarrow> failure + bool" where
  "custom_newer imageCandidate iv =
     (if giv_ID imageCandidate = None then Inr True
      else case iv of
             None \<Rightarrow> Inl NilPanic
           | Some v \<Rightarrow>
               (case giv_PublishedDate v of
                  Inl f \<Rightarrow> Inl f
                | Inr d \<Rightarrow>
                    (case giv_PublishedDate imageCandidate of
                       Inl f \<Rightarrow> Inl f
                     | Inr dc \<Rightarrow> Inr (d > dc))))"

fun custom_scan :: "GalleryImageVersion \<Rightarrow> GalleryImageVersion option list
    \<Rightarrow> failure + GalleryImageVersion" where
  "custom_scan imageCandidate [] = Inr imageCandidate"
| "custom_scan imageCandidate (iv # ivs) =
     (case custom_newer imageCandidate iv of
        Inl f \<Rightarrow> Inl f
      | Inr b \<Rightarrow>
          if b then (case iv of None \<Rightarrow> Inl NilPanic | Some v \<Rightarrow> custom_scan v ivs)
          else custom_scan imageCandidate ivs)"

text \<open>Lines 136 to 156 of \<open>GetCustomImageID\<close>: the candidate, by point lookup when the
  term pins a version and by listing otherwise.\<close>

definition GetCustomImageID_candidate :: "Remote \<Rightarrow> Provider \<Rightarrow> CustomImageTerm
    \<Rightarrow> (failure + GalleryImageVersion) \<times> Provider" where
  "GetCustomImageID_candidate r p imageTerm =
     (let s = GallerySubscriptionID imageTerm; rg = GalleryResourceGroupName imageTerm;
          g = GalleryName imageTerm; n = Name imageTerm
      in if Version imageTerm \<noteq> []
         then (case GalleryImageVersions_Get r s rg g n (Version imageTerm) of
                 Inl e \<Rightarrow> Inl (Err e)
               | Inr imageInfo \<Rightarrow> Inr imageInfo,
               p\<lparr>calls := calls p @ [GalleryGet s rg g n (Version imageTerm)]\<rparr>)
         else (let (res, tr) = pager_loop (GalleryNextPage s rg g n) custom_scan
                      GalleryImageVersion_zero
                      (pages (NewListByGalleryImagePager r s rg g n)) (calls p)
               in (res, p\<lparr>calls := tr\<rparr>)))"

definition GetCustomImageID :: "Remote \<Rightarrow> time \<Rightarrow> Provider \<Rightarrow> CustomImageTerm
    \<Rightarrow> (failure + string) \<times> Provider" where
  "GetCustomImageID r now p imageTerm =
     (let key = GetCustomImageID_key imageTerm
      in case cache_Get (imageCache p) now key of
           Some imageID \<Rightarrow> (Inr imageID, p)
         | None \<Rightarrow>
             (case NewDefaultAzureCredential r of
                Some e \<Rightarrow> (Inl (Fatal (''failed to obtain a credential: '' @ e)), p)
              | None \<Rightarrow>
                  (case NewClientFactory r (GallerySubscriptionID imageTerm) of
                     Some e \<Rightarrow> (Inl (Fatal (''failed to create client: '' @ e)), p)
                   | None \<Rightarrow>
                       (case GetCustomImageID_candidate r p imageTerm of
                          (Inl f, p') \<Rightarrow> (Inl f, p')
                        | (Inr imageCandidate, p') \<Rightarrow>
                            (case giv_ID imageCandidate of
                               None \<Rightarrow> (Inl NilPanic, p')
                             | Some imageID \<Rightarrow>
                                 (let (changed, m) = HasChanged (cm p') key imageID
                                  in (Inr imageID,
                                      p'\<lparr>cm := m,
                                         logs := (if changed then logs p' @ [imageID]
                                                  else logs p'),
                                         imageCache := cache_Set (imageCache p') now key
                                            imageID imageExpirationInterval\<rparr>)))))))"

subsection \<open>The orchestrator\<close>

text \<open>The loop of \<open>Get\<close> over the default images: \<open>None\<close> when it falls through.\<close>

fun Get_defaultImages :: "Remote \<Rightarrow> 'r compatible \<Rightarrow> Provider \<Rightarrow> 'r InstanceType
    \<Rightarrow> 'r DefaultImageOutput list \<Rightarrow> ((failure + string \<times> string) \<times> Provider) option" where
  "Get_defaultImages r Compatible p instanceType [] = None"
| "Get_defaultImages r Compatible p instanceType (defaultImage # defaultImages) =
     (if Compatible (it_Requirements instanceType) (Requirements defaultImage)
           [AllowUndefinedWellKnownAndRestrictedLabels] = None
      then (let communityImageName = ImageDefinition defaultImage;
                publicGalleryURL = PublicGalleryURL defaultImage
            in case getCIGImageID r p communityImageName publicGalleryURL of
                 (Inl f, p') \<Rightarrow> Some (Inl f, p')
               | (Inr imageID, p') \<Rightarrow> Some (Inr (Distro defaultImage, imageID), p'))
      else Get_defaultImages r Compatible p instanceType defaultImages)"

definition Get :: "Remote \<Rightarrow> 'r compatible \<Rightarrow> time \<Rightarrow> Options \<Rightarrow> Provider \<Rightarrow> AKSNodeClassSpec
    \<Rightarrow> 'r InstanceType \<Rightarrow> 'r DefaultImageOutput list
    \<Rightarrow> (failure + string \<times> string) \<times> Provider" where
  "Get r Compatible now ctx p nodeClassSpec instanceType imageFamily =
     (if CustomImageTerm nodeClassSpec = CustomImageTerm_zero
      then (case Get_defaultImages r Compatible p instanceType imageFamily of
              Some res \<Rightarrow> res
            | None \<Rightarrow>
                (Inl (Err (''no compatible images found for instance type ''
                           @ it_Name instanceType)), p))
      else (case GetCustomImageID r now p (CustomImageTerm nodeClassSpec) of
              (Inl f, p') \<Rightarrow> (Inl f, p')
            | (Inr imageID, p') \<Rightarrow>
                (Inr (DistroName (CustomImageTerm nodeClassSpec), imageID), p')))"

section \<open>Example inputs\<close>

text \<open>
  A provider in \<open>westeurope\<close> with an empty cache, and remote services holding: a
  community gallery \<open>AKSUbuntu\<close> with three versions of \<open>2204gen2containerd\<close> on two
  pages, two of them published at the same latest instant; a shared-gallery version list
  with two records of that SKU; a private gallery with three versions of the image
  \<open>img\<close>, a throttled listing for the image \<open>throttled\<close> and an empty listing for
  every other image. \<open>ex_remote_failing\<close> is the same world with every lookup failing,
  the listings on their second page; \<open>ex_remote_published\<close> is the same world with a
  community gallery that holds one given version of every image.
\<close>

definition ex_civ :: "string \<Rightarrow> time \<Rightarrow> CommunityGalleryImageVersion" where
  "ex_civ n d = \<lparr>civ_Identifier = None,
     civ_Properties = Some \<lparr>civp_PublishedDate = Some d\<rparr>,
     civ_Location = None, civ_Name = Some n, civ_Type = None\<rparr>"

definition ex_giv :: "string \<Rightarrow> time \<Rightarrow> GalleryImageVersion" where
  "ex_giv i d = \<lparr>giv_ID = Some i,
     giv_Properties = Some \<lparr>PublishingProfile = Some \<lparr>PublishedDate = Some d\<rparr>\<rparr>\<rparr>"

definition ex_remote :: Remote where
  "ex_remote =
     \<lparr>NewListPager = (\<lambda>l g n.
         if g = ''AKSUbuntu'' \<and> n = ''2204gen2containerd''
         then Pager (Inr [Some (ex_civ ''2024.01'' 1), Some (ex_civ ''2024.03'' 5)])
                [Inr [Some (ex_civ ''2024.02'' 5)]]
         else Pager (Inr []) []),
      NodeImageVersions_List = (\<lambda>l s.
         Inr [\<lparr>SKU = ''2204gen2arm64containerd'', niv_Version = ''1.1''\<rparr>,
              \<lparr>SKU = ''2204gen2containerd'', niv_Version = ''2.2''\<rparr>,
              \<lparr>SKU = ''2204gen2containerd'', niv_Version = ''3.3''\<rparr>]),
      NewDefaultAzureCredential = None,
      NewClientFactory = (\<lambda>s. None),
      GalleryImageVersions_Get = (\<lambda>s rg g n v.
         if n = ''img'' \<and> v = ''1.0.0'' then Inr (ex_giv ''/img/1.0.0'' 1)
         else Inl ''not found''),
      NewListByGalleryImagePager = (\<lambda>s rg g n.
         if n = ''img''
         then Pager (Inr [Some (ex_giv ''/img/1.0.0'' 1), Some (ex_giv ''/img/3.0.0'' 5)])
                [Inr [Some (ex_giv ''/img/2.0.0'' 5)]]
         else if n = ''throttled'' then Pager (Inl ''too many requests'') []
         else Pager (Inr []) [Inr []])\<rparr>"

definition ex_provider :: Provider where
  "ex_provider = \<lparr>location = ''westeurope'', subscription = ''sub'',
     imageCache = Map.empty, cm = Map.empty, calls = [], logs = []\<rparr>"

definition ex_ctx :: Options where
  "ex_ctx = \<lparr>UseSIG = True, SIGSubscriptionID = ''sigsub''\<rparr>"

definition ex_image :: "string list DefaultImageOutput" where
  "ex_image = \<lparr>PublicGalleryURL = ''AKSUbuntu'', GalleryResourceGroup = ''AKS-Ubuntu'',
     di_GalleryName = ''AKSUbuntu'', ImageDefinition = ''2204gen2containerd'',
     Requirements = [''amd64'', ''V2''], Distro = ''aks-ubuntu-containerd-22.04-gen2''\<rparr>"

definition ex_term :: CustomImageTerm where
  "ex_term = \<lparr>GallerySubscriptionID = ''gsub'', GalleryResourceGroupName = ''grg'',
     GalleryName = ''gal'', Name = ''img'', Version = [],
     DistroName = ''aks-ubuntu-containerd-22.04-gen2''\<rparr>"

definition ex_Compatible :: "string list compatible" where
  "ex_Compatible have want opts =
     (if set want \<subseteq> set have then None else Some ''incompatible requirements'')"

definition ex_instance :: "string list InstanceType" where
  "ex_instance = \<lparr>it_Name = ''Standard_D2s_v3'', it_Requirements = [''amd64'', ''V2'']\<rparr>"

definition ex_arm_image :: "string list DefaultImageOutput" where
  "ex_arm_image = \<lparr>PublicGalleryURL = ''AKSUbuntu'', GalleryResourceGroup = ''AKS-Ubuntu'',
     di_GalleryName = ''AKSUbuntu'', ImageDefinition = ''2204gen2arm64containerd'',
     Requirements = [''arm64'', ''V2''],
     Distro = ''aks-ubuntu-arm64-containerd-22.04-gen2''\<rparr>"

definition ex_default :: AKSNodeClassSpec where
  "ex_default = \<lparr>CustomImageTerm = CustomImageTerm_zero\<rparr>"

definition ex_custom :: AKSNodeClassSpec where
  "ex_custom = \<lparr>CustomImageTerm = ex_term\<rparr>"

definition ex_remote_failing :: Remote where
  "ex_remote_failing = ex_remote
     \<lparr>NewListPager := (\<lambda>l g n.
         Pager (Inr [Some (ex_civ ''2024.01'' 1)]) [Inl ''service unavailable'']),
      NodeImageVersions_List := (\<lambda>l s. Inl ''service unavailable''),
      GalleryImageVersions_Get := (\<lambda>s rg g n v. Inl ''service unavailable''),
      NewListByGalleryImagePager := (\<lambda>s rg g n.
         Pager (Inr [Some (ex_giv ''/img/1.0.0'' 1)]) [Inl ''service unavailable''])\<rparr>"

definition ex_remote_published :: "string \<Rightarrow> time \<Rightarrow> Remote" where
  "ex_remote_published v d = ex_remote
     \<lparr>NewListPager := (\<lambda>l g n. Pager (Inr [Some (ex_civ v d)]) [])\<rparr>"

section \<open>Unfolding the model\<close>

text \<open>The defining equations of the model, for evaluating it on concrete inputs.\<close>

lemmas model_eval =
  Get_def GetCustomImageID_def GetCustomImageID_key_def GetCustomImageID_candidate_def
  GetLatestImageID_def GetLatestImageID_key_def resolveImageID_def getSIGImageID_def
  getCIGImageID_def latestNodeImageVersionCommunity_def BuildImageIDCIG_def
  communityImageIDFormat_def sharedImageGalleryImageIDFormat_def sharedImageKey_def
  communityImageKey_def cache_Get_def cache_Set_def imageExpirationInterval_def
  HasChanged_def pages_def GalleryImageVersion_zero_def CommunityGalleryImageVersion_zero_def
  custom_newer_def community_newer_def giv_PublishedDate_def civ_PublishedDate_def
  FromPtr_def CustomImageTerm_zero_def Let_def

section \<open>Paging and scanning\<close>

lemma pager_loop_calls_mono:
  "length tr \<le> length (snd (pager_loop c scan cand pgs tr))"
proof (induction pgs arbitrary: cand tr)
  case Nil
  show ?case by simp
next
  case (Cons pg pgs)
  show ?case
  proof (cases pg)
    case (Inl e)
    then show ?thesis by simp
  next
    case (Inr vs)
    show ?thesis
    proof (cases "scan cand vs")
      case (Inl f)
      with Inr show ?thesis by simp
    next
      case (Inr cand')
      have "length (tr @ [c]) \<le> length (snd (pager_loop c scan cand' pgs (tr @ [c])))"
        by (rule Cons.IH)
      with Inr \<open>pg = Inr vs\<close> show ?thesis by simp
    qed
  qed
qed

lemma pager_loop_calls_grow:
  "length tr < length (snd (pager_loop c scan cand (pages pg) tr))"
proof -
  have "length (tr @ [c]) \<le> length (snd (pager_loop c scan cand' (NextPages pg) (tr @ [c])))"
    for cand'
    by (rule pager_loop_calls_mono)
  then show ?thesis
    by (auto simp: pages_def split: sum.splits) (metis Suc_le_lessD length_append_singleton)
qed

lemma pager_loop_all_pages:
  assumes app: "\<And>cand xs ys. scan cand (xs @ ys) =
                  (case scan cand xs of Inl f \<Rightarrow> Inl f | Inr cand' \<Rightarrow> scan cand' ys)"
    and nil: "\<And>cand. scan cand [] = Inr cand"
  shows "fst (pager_loop c scan cand (map Inr vss) tr) = scan cand (concat vss)"
proof (induction vss arbitrary: cand tr)
  case Nil
  show ?case by (simp add: nil)
next
  case (Cons vs vss)
  show ?case
    by (cases "scan cand vs") (simp_all add: app Cons.IH)
qed

lemma pager_loop_all_calls:
  assumes app: "\<And>cand xs ys. scan cand (xs @ ys) =
                  (case scan cand xs of Inl f \<Rightarrow> Inl f | Inr cand' \<Rightarrow> scan cand' ys)"
    and ok: "scan cand (concat vss) = Inr best"
  shows "snd (pager_loop c scan cand (map Inr vss) tr) = tr @ replicate (length vss) c"
  using ok
proof (induction vss arbitrary: cand tr)
  case Nil
  show ?case by simp
next
  case (Cons vs vss)
  from Cons.prems obtain cand' where 1: "scan cand vs = Inr cand'"
    and 2: "scan cand' (concat vss) = Inr best"
    by (auto simp: app split: sum.splits)
  have "snd (pager_loop c scan cand' (map Inr vss) (tr @ [c]))
          = (tr @ [c]) @ replicate (length vss) c"
    using 2 by (rule Cons.IH)
  with 1 show ?case by (simp add: replicate_app_Cons_same)
qed

lemma community_scan_append:
  "community_scan cand (xs @ ys) =
     (case community_scan cand xs of Inl f \<Rightarrow> Inl f | Inr cand' \<Rightarrow> community_scan cand' ys)"
  by (induction xs arbitrary: cand) (auto split: sum.splits option.splits)

lemma custom_scan_append:
  "custom_scan cand (xs @ ys) =
     (case custom_scan cand xs of Inl f \<Rightarrow> Inl f | Inr cand' \<Rightarrow> custom_scan cand' ys)"
  by (induction xs arbitrary: cand) (auto split: sum.splits option.splits)

lemma civ_dated_nonzero:
  "\<not> isl (civ_PublishedDate v) \<Longrightarrow> v \<noteq> CommunityGalleryImageVersion_zero"
  by (auto simp: civ_PublishedDate_def CommunityGalleryImageVersion_zero_def)

lemma community_newer_dated:
  assumes "\<not> isl (civ_PublishedDate cand)" "\<not> isl (civ_PublishedDate v)"
  shows "community_newer cand (Some v)
           = Inr (projr (civ_PublishedDate v) > projr (civ_PublishedDate cand))"
proof -
  from assms obtain d dc where "civ_PublishedDate v = Inr d" "civ_PublishedDate cand = Inr dc"
    by (cases "civ_PublishedDate v"; cases "civ_PublishedDate cand") auto
  with civ_dated_nonzero[OF assms(1)] show ?thesis
    by (simp add: community_newer_def)
qed

lemma community_scan_keeps:
  assumes "\<not> isl (civ_PublishedDate b)"
    and "\<forall>u\<in>set post. \<not> isl (civ_PublishedDate u)
            \<and> projr (civ_PublishedDate u) \<le> projr (civ_PublishedDate b)"
  shows "community_scan b (map Some post) = Inr b"
  using assms(2)
proof (induction post)
  case Nil
  show ?case by simp
next
  case (Cons u post)
  then show ?case
    by (simp add: community_newer_dated[OF assms(1)])
qed

lemma community_scan_reaches:
  assumes "\<not> isl (civ_PublishedDate b)"
    and "\<forall>u\<in>set post. \<not> isl (civ_PublishedDate u)
            \<and> projr (civ_PublishedDate u) \<le> projr (civ_PublishedDate b)"
  shows "\<not> isl (civ_PublishedDate cand) \<Longrightarrow>
         projr (civ_PublishedDate cand) < projr (civ_PublishedDate b) \<Longrightarrow>
         \<forall>u\<in>set pre. \<not> isl (civ_PublishedDate u)
            \<and> projr (civ_PublishedDate u) < projr (civ_PublishedDate b) \<Longrightarrow>
         community_scan cand (map Some (pre @ b # post)) = Inr b"
proof (induction pre arbitrary: cand)
  case Nil
  then show ?case
    by (simp add: community_newer_dated assms(1) community_scan_keeps[OF assms])
next
  case (Cons u pre)
  then show ?case
    by (simp add: community_newer_dated)
qed

lemma community_scan_first_latest:
  assumes "\<not> isl (civ_PublishedDate b)"
    and "\<forall>u\<in>set post. \<not> isl (civ_PublishedDate u)
            \<and> projr (civ_PublishedDate u) \<le> projr (civ_PublishedDate b)"
    and "\<forall>u\<in>set pre. \<not> isl (civ_PublishedDate u)
            \<and> projr (civ_PublishedDate u) < projr (civ_PublishedDate b)"
  shows "community_scan CommunityGalleryImageVersion_zero (map Some (pre @ b # post)) = Inr b"
proof (cases pre)
  case Nil
  then show ?thesis
    by (simp add: community_newer_def community_scan_keeps[OF assms(1,2)])
next
  case (Cons u pre')
  with assms(3) have "community_scan u (map Some (pre' @ b # post)) = Inr b"
    by (intro community_scan_reaches[OF assms(1,2)]) auto
  with Cons show ?thesis
    by (simp add: community_newer_def)
qed

section \<open>Community gallery resolver\<close>

lemma getCIGImageID_fst:
  "fst (getCIGImageID r p publicGalleryURL communityImageName) =
     (case fst (latestNodeImageVersionCommunity r p publicGalleryURL communityImageName) of
        Inl f \<Rightarrow> Inl f
      | Inr imageVersion \<Rightarrow>
          Inr (BuildImageIDCIG publicGalleryURL communityImageName imageVersion))"
  by (cases "latestNodeImageVersionCommunity r p publicGalleryURL communityImageName")
     (simp add: getCIGImageID_def split: sum.splits)

text \<open>
  Claim C6. When every page of the community listing is fetched, the resolver returns the
  name of the record with the latest publish date, the first of them in listing order
  when several share that date, wherever the page boundaries fall; the comparison is
  strict, so an equally recent later record does not replace it. When the listing holds
  no record the resolved name is empty and \<open>getCIGImageID\<close> returns, without failing,
  an image id whose version segment is empty.
\<close>

theorem latestNodeImageVersionCommunity_latest:
  assumes "pages (NewListPager r (location p) publicGalleryURL communityImageName)
             = map Inr vss"
  shows "(concat vss = map Some (pre @ b # post)
            \<and> \<not> isl (civ_PublishedDate b)
            \<and> (\<forall>u\<in>set pre. \<not> isl (civ_PublishedDate u)
                  \<and> projr (civ_PublishedDate u) < projr (civ_PublishedDate b))
            \<and> (\<forall>u\<in>set post. \<not> isl (civ_PublishedDate u)
                  \<and> projr (civ_PublishedDate u) \<le> projr (civ_PublishedDate b))
          \<longrightarrow> fst (latestNodeImageVersionCommunity r p publicGalleryURL communityImageName)
                = Inr (FromPtr (civ_Name b)))
       \<and> (concat vss = []
          \<longrightarrow> fst (latestNodeImageVersionCommunity r p publicGalleryURL communityImageName)
                = Inr []
            \<and> fst (getCIGImageID r p publicGalleryURL communityImageName)
                = Inr (''/CommunityGalleries/'' @ publicGalleryURL @ ''/images/''
                       @ communityImageName @ ''/versions/''))"
proof -
  have scan: "fst (pager_loop c community_scan CommunityGalleryImageVersion_zero
                     (map Inr vss) tr)
                = community_scan CommunityGalleryImageVersion_zero (concat vss)" for c tr
    by (rule pager_loop_all_pages) (simp_all add: community_scan_append)
  have res: "fst (latestNodeImageVersionCommunity r p publicGalleryURL communityImageName)
               = (case community_scan CommunityGalleryImageVersion_zero (concat vss) of
                    Inl f \<Rightarrow> Inl f | Inr t \<Rightarrow> Inr (FromPtr (civ_Name t)))"
    using scan[of "CommunityNextPage (location p) publicGalleryURL communityImageName" "calls p"]
    by (simp add: latestNodeImageVersionCommunity_def assms Let_def case_prod_beta)
  have empty: "fst (latestNodeImageVersionCommunity r p publicGalleryURL communityImageName)
                 = Inr []" if "concat vss = []"
  proof -
    have "community_scan CommunityGalleryImageVersion_zero (concat vss)
            = Inr CommunityGalleryImageVersion_zero"
      by (simp only: that community_scan.simps)
    then show ?thesis
      by (simp add: res CommunityGalleryImageVersion_zero_def FromPtr_def)
  qed
  show ?thesis
  proof (intro conjI impI)
    assume "concat vss = map Some (pre @ b # post)
            \<and> \<not> isl (civ_PublishedDate b)
            \<and> (\<forall>u\<in>set pre. \<not> isl (civ_PublishedDate u)
                  \<and> projr (civ_PublishedDate u) < projr (civ_PublishedDate b))
            \<and> (\<forall>u\<in>set post. \<not> isl (civ_PublishedDate u)
                  \<and> projr (civ_PublishedDate u) \<le> projr (civ_PublishedDate b))"
    then have c: "concat vss = map Some (pre @ b # post)"
      and wf: "\<not> isl (civ_PublishedDate b)"
        "\<forall>u\<in>set post. \<not> isl (civ_PublishedDate u)
            \<and> projr (civ_PublishedDate u) \<le> projr (civ_PublishedDate b)"
        "\<forall>u\<in>set pre. \<not> isl (civ_PublishedDate u)
            \<and> projr (civ_PublishedDate u) < projr (civ_PublishedDate b)"
      by blast+
    have "community_scan CommunityGalleryImageVersion_zero (concat vss) = Inr b"
      unfolding c using wf by (rule community_scan_first_latest)
    then show "fst (latestNodeImageVersionCommunity r p publicGalleryURL communityImageName)
                = Inr (FromPtr (civ_Name b))"
      by (simp add: res)
  next
    assume "concat vss = []"
    then show "fst (latestNodeImageVersionCommunity r p publicGalleryURL communityImageName)
                = Inr []"
      by (rule empty)
  next
    assume "concat vss = []"
    from empty[OF this]
    show "fst (getCIGImageID r p publicGalleryURL communityImageName)
                = Inr (''/CommunityGalleries/'' @ publicGalleryURL @ ''/images/''
                       @ communityImageName @ ''/versions/'')"
      by (simp add: getCIGImageID_fst BuildImageIDCIG_def communityImageIDFormat_def)
  qed
qed

theorem latestNodeImageVersionCommunity_latest_witness:
  "pages (NewListPager ex_remote (location ex_provider) ''AKSUbuntu'' ''2204gen2containerd'')
     = map Inr [[Some (ex_civ ''2024.01'' 1), Some (ex_civ ''2024.03'' 5)],
                [Some (ex_civ ''2024.02'' 5)]]
   \<and> fst (latestNodeImageVersionCommunity ex_remote ex_provider ''AKSUbuntu''
            ''2204gen2containerd'') = Inr ''2024.03''
   \<and> pages (NewListPager ex_remote (location ex_provider) ''none'' ''none'') = map Inr [[]]
   \<and> fst (getCIGImageID ex_remote ex_provider ''none'' ''none'')
       = Inr ''/CommunityGalleries/none/images/none/versions/''"
proof -
  have h1: "pages (NewListPager ex_remote (location ex_provider) ''AKSUbuntu''
              ''2204gen2containerd'')
     = map Inr [[Some (ex_civ ''2024.01'' 1), Some (ex_civ ''2024.03'' 5)],
                [Some (ex_civ ''2024.02'' 5)]]"
    by (simp add: ex_remote_def pages_def)
  have h2: "pages (NewListPager ex_remote (location ex_provider) ''none'' ''none'')
              = map Inr [[]]"
    by (simp add: ex_remote_def pages_def)
  have a: "fst (latestNodeImageVersionCommunity ex_remote ex_provider ''AKSUbuntu''
            ''2204gen2containerd'') = Inr ''2024.03''"
    using latestNodeImageVersionCommunity_latest[OF h1,
        of "[ex_civ ''2024.01'' 1]" "ex_civ ''2024.03'' 5" "[ex_civ ''2024.02'' 5]"]
    by (simp add: ex_civ_def civ_PublishedDate_def FromPtr_def)
  have b: "fst (getCIGImageID ex_remote ex_provider ''none'' ''none'')
       = Inr ''/CommunityGalleries/none/images/none/versions/''"
    using latestNodeImageVersionCommunity_latest[OF h2] by simp
  from h1 h2 a b show ?thesis by blast
qed

section \<open>Shared gallery resolver\<close>

lemma getSIGImageID_versions_find:
  "getSIGImageID_versions ctx imgStub versions =
     (case find (\<lambda>v. ImageDefinition imgStub = SKU v) versions of
        None \<Rightarrow> Inl (Err (''failed to get the latest version of the image '' @ ImageDefinition imgStub))
      | Some v \<Rightarrow> Inr (sharedImageGalleryImageIDFormat (SIGSubscriptionID ctx)
                  (GalleryResourceGroup imgStub) (di_GalleryName imgStub)
                  (ImageDefinition imgStub) (niv_Version v)))"
  by (induction versions) simp_all

lemma find_first_match:
  "\<forall>u\<in>set pre. \<not> P u \<Longrightarrow> P v \<Longrightarrow> find P (pre @ v # post) = Some v"
  by (induction pre) auto

text \<open>
  Claim C7. Given the version list the node-image-versions service returned: when some
  record's SKU equals the descriptor's image definition, the shared resolver returns the
  id built from the first such record's version by the shared-gallery template; when no
  record's SKU equals it, the resolver fails with an error naming the image definition;
  and it fails in that case only.
\<close>

theorem getSIGImageID_first_match:
  assumes "NodeImageVersions_List r (location p) (subscription p) = Inr versions"
  shows "(versions = pre @ v # post \<and> SKU v = ImageDefinition imgStub
              \<and> (\<forall>u\<in>set pre. SKU u \<noteq> ImageDefinition imgStub) \<longrightarrow>
            fst (getSIGImageID r ctx p imgStub) =
              Inr (''/subscriptions/'' @ SIGSubscriptionID ctx @ ''/resourceGroups/''
                   @ GalleryResourceGroup imgStub @ ''/providers/Microsoft.Compute/galleries/''
                   @ di_GalleryName imgStub @ ''/images/'' @ ImageDefinition imgStub
                   @ ''/versions/'' @ niv_Version v))
       \<and> ((\<forall>u\<in>set versions. SKU u \<noteq> ImageDefinition imgStub) \<longrightarrow>
            fst (getSIGImageID r ctx p imgStub) =
              Inl (Err (''failed to get the latest version of the image ''
                        @ ImageDefinition imgStub)))
       \<and> (isl (fst (getSIGImageID r ctx p imgStub)) \<longleftrightarrow>
            (\<forall>u\<in>set versions. SKU u \<noteq> ImageDefinition imgStub))"
proof -
  let ?P = "\<lambda>v. ImageDefinition imgStub = SKU v"
  have res: "fst (getSIGImageID r ctx p imgStub) = getSIGImageID_versions ctx imgStub versions"
    using assms by (simp add: getSIGImageID_def Let_def)
  have none: "find ?P versions = None \<longleftrightarrow> (\<forall>u\<in>set versions. SKU u \<noteq> ImageDefinition imgStub)"
    by (auto simp: find_None_iff)
  show ?thesis
  proof (intro conjI impI)
    assume H: "versions = pre @ v # post \<and> SKU v = ImageDefinition imgStub
              \<and> (\<forall>u\<in>set pre. SKU u \<noteq> ImageDefinition imgStub)"
    then have "find ?P (pre @ v # post) = Some v"
      by (intro find_first_match) auto
    with H have "find ?P versions = Some v" by simp
    then show "fst (getSIGImageID r ctx p imgStub) =
              Inr (''/subscriptions/'' @ SIGSubscriptionID ctx @ ''/resourceGroups/''
                   @ GalleryResourceGroup imgStub @ ''/providers/Microsoft.Compute/galleries/''
                   @ di_GalleryName imgStub @ ''/images/'' @ ImageDefinition imgStub
                   @ ''/versions/'' @ niv_Version v)"
      by (simp add: res getSIGImageID_versions_find sharedImageGalleryImageIDFormat_def)
  next
    assume "\<forall>u\<in>set versions. SKU u \<noteq> ImageDefinition imgStub"
    then have "find ?P versions = None" by (simp only: none)
    then show "fst (getSIGImageID r ctx p imgStub) =
              Inl (Err (''failed to get the latest version of the image ''
                        @ ImageDefinition imgStub))"
      by (simp add: res getSIGImageID_versions_find)
  next
    have "isl (fst (getSIGImageID r ctx p imgStub)) \<longleftrightarrow> find ?P versions = None"
      by (simp add: res getSIGImageID_versions_find split: option.splits)
    then show "isl (fst (getSIGImageID r ctx p imgStub)) \<longleftrightarrow>
            (\<forall>u\<in>set versions. SKU u \<noteq> ImageDefinition imgStub)"
      by (simp only: none)
  qed
qed

theorem getSIGImageID_first_match_witness:
  "NodeImageVersions_List ex_remote (location ex_provider) (subscription ex_provider)
     = Inr [\<lparr>SKU = ''2204gen2arm64containerd'', niv_Version = ''1.1''\<rparr>,
            \<lparr>SKU = ''2204gen2containerd'', niv_Version = ''2.2''\<rparr>,
            \<lparr>SKU = ''2204gen2containerd'', niv_Version = ''3.3''\<rparr>]
   \<and> fst (getSIGImageID ex_remote ex_ctx ex_provider ex_image)
       = Inr ''/subscriptions/sigsub/resourceGroups/AKS-Ubuntu/providers/Microsoft.Compute/galleries/AKSUbuntu/images/2204gen2containerd/versions/2.2''
   \<and> fst (getSIGImageID ex_remote ex_ctx ex_provider (ex_image\<lparr>ImageDefinition := ''none''\<rparr>))
       = Inl (Err ''failed to get the latest version of the image none'')"
proof -
  have h: "NodeImageVersions_List ex_remote (location ex_provider) (subscription ex_provider)
     = Inr [\<lparr>SKU = ''2204gen2arm64containerd'', niv_Version = ''1.1''\<rparr>,
            \<lparr>SKU = ''2204gen2containerd'', niv_Version = ''2.2''\<rparr>,
            \<lparr>SKU = ''2204gen2containerd'', niv_Version = ''3.3''\<rparr>]"
    by (simp add: ex_remote_def)
  have a: "fst (getSIGImageID ex_remote ex_ctx ex_provider ex_image)
       = Inr ''/subscriptions/sigsub/resourceGroups/AKS-Ubuntu/providers/Microsoft.Compute/galleries/AKSUbuntu/images/2204gen2containerd/versions/2.2''"
    using getSIGImageID_first_match[OF h,
        of "[\<lparr>SKU = ''2204gen2arm64containerd'', niv_Version = ''1.1''\<rparr>]"
           "\<lparr>SKU = ''2204gen2containerd'', niv_Version = ''2.2''\<rparr>"
           "[\<lparr>SKU = ''2204gen2containerd'', niv_Version = ''3.3''\<rparr>]" ex_image ex_ctx]
    by (simp add: ex_image_def ex_ctx_def)
  have b: "fst (getSIGImageID ex_remote ex_ctx ex_provider (ex_image\<lparr>ImageDefinition := ''none''\<rparr>))
       = Inl (Err ''failed to get the latest version of the image none'')"
    using getSIGImageID_first_match[OF h, of _ _ _ "ex_image\<lparr>ImageDefinition := ''none''\<rparr>" ex_ctx]
    by (simp add: ex_image_def)
  from h a b show ?thesis by blast
qed

lemma custom_newer_dated:
  assumes "\<not> isl (giv_PublishedDate cand)" "\<not> isl (giv_PublishedDate v)"
  shows "custom_newer cand (Some v)
           = Inr (giv_ID cand = None
                  \<or> projr (giv_PublishedDate v) > projr (giv_PublishedDate cand))"
proof -
  from assms obtain d dc where "giv_PublishedDate v = Inr d" "giv_PublishedDate cand = Inr dc"
    by (cases "giv_PublishedDate v"; cases "giv_PublishedDate cand") auto
  then show ?thesis
    by (auto simp: custom_newer_def)
qed

lemma custom_scan_keeps:
  assumes "giv_ID b \<noteq> None" "\<not> isl (giv_PublishedDate b)"
    and "\<forall>u\<in>set post. \<not> isl (giv_PublishedDate u)
            \<and> projr (giv_PublishedDate u) \<le> projr (giv_PublishedDate b)"
  shows "custom_scan b (map Some post) = Inr b"
  using assms(3)
proof (induction post)
  case Nil
  show ?case by simp
next
  case (Cons u post)
  then show ?case
    using assms(1) by (auto simp: custom_newer_dated[OF assms(2)])
qed

lemma custom_scan_reaches:
  assumes "giv_ID b \<noteq> None" "\<not> isl (giv_PublishedDate b)"
    and "\<forall>u\<in>set post. \<not> isl (giv_PublishedDate u)
            \<and> projr (giv_PublishedDate u) \<le> projr (giv_PublishedDate b)"
  shows "giv_ID cand = None \<or> \<not> isl (giv_PublishedDate cand)
            \<and> projr (giv_PublishedDate cand) < projr (giv_PublishedDate b) \<Longrightarrow>
         \<forall>u\<in>set pre. \<not> isl (giv_PublishedDate u)
            \<and> projr (giv_PublishedDate u) < projr (giv_PublishedDate b) \<Longrightarrow>
         custom_scan cand (map Some (pre @ b # post)) = Inr b"
proof (induction pre arbitrary: cand)
  case Nil
  have "custom_newer cand (Some b) = Inr True"
    using Nil(1) assms(2) by (auto simp: custom_newer_dated) (simp add: custom_newer_def)
  then show ?case
    by (simp add: custom_scan_keeps[OF assms])
next
  case (Cons u pre)
  show ?case
  proof (cases "giv_ID cand = None")
    case True
    then have "custom_newer cand (Some u) = Inr True"
      by (simp add: custom_newer_def)
    moreover have "custom_scan u (map Some (pre @ b # post)) = Inr b"
      using Cons.prems(2) by (intro Cons.IH) auto
    ultimately show ?thesis by simp
  next
    case False
    with Cons.prems(1) have c: "\<not> isl (giv_PublishedDate cand)"
      "projr (giv_PublishedDate cand) < projr (giv_PublishedDate b)" by auto
    have u: "\<not> isl (giv_PublishedDate u)"
      "projr (giv_PublishedDate u) < projr (giv_PublishedDate b)"
      using Cons.prems(2) by auto
    have 1: "custom_scan u (map Some (pre @ b # post)) = Inr b"
      using Cons.prems(2) by (intro Cons.IH) auto
    have 2: "custom_scan cand (map Some (pre @ b # post)) = Inr b"
      using Cons.prems by (intro Cons.IH) auto
    show ?thesis
      using 1 2 False by (simp add: custom_newer_dated[OF c(1) u(1)])
  qed
qed

section \<open>Custom image resolver\<close>

lemma GetCustomImageID_miss:
  assumes "cache_Get (imageCache p) now (GetCustomImageID_key imageTerm) = None"
    and "NewDefaultAzureCredential r = None"
    and "NewClientFactory r (GallerySubscriptionID imageTerm) = None"
  shows "GetCustomImageID r now p imageTerm =
     (case GetCustomImageID_candidate r p imageTerm of
        (Inl f, p') \<Rightarrow> (Inl f, p')
      | (Inr imageCandidate, p') \<Rightarrow>
          (case giv_ID imageCandidate of
             None \<Rightarrow> (Inl NilPanic, p')
           | Some imageID \<Rightarrow>
               (Inr imageID,
                p'\<lparr>cm := (cm p')(GetCustomImageID_key imageTerm \<mapsto> imageID),
                   logs := (if cm p' (GetCustomImageID_key imageTerm) \<noteq> Some imageID
                            then logs p' @ [imageID] else logs p'),
                   imageCache := cache_Set (imageCache p') now
                      (GetCustomImageID_key imageTerm) imageID imageExpirationInterval\<rparr>)))"
  by (simp add: GetCustomImageID_def Let_def assms HasChanged_def
        split: prod.splits sum.splits option.splits)

lemma GetCustomImageID_candidate_pinned:
  assumes "Version imageTerm \<noteq> []"
  shows "GetCustomImageID_candidate r p imageTerm =
     (case GalleryImageVersions_Get r (GallerySubscriptionID imageTerm)
             (GalleryResourceGroupName imageTerm) (GalleryName imageTerm) (Name imageTerm)
             (Version imageTerm) of
        Inl e \<Rightarrow> Inl (Err e)
      | Inr imageInfo \<Rightarrow> Inr imageInfo,
      p\<lparr>calls := calls p @ [GalleryGet (GallerySubscriptionID imageTerm)
             (GalleryResourceGroupName imageTerm) (GalleryName imageTerm) (Name imageTerm)
             (Version imageTerm)]\<rparr>)"
  using assms by (simp add: GetCustomImageID_candidate_def Let_def)

lemma GetCustomImageID_candidate_listing:
  assumes "Version imageTerm = []"
    and "pages (NewListByGalleryImagePager r (GallerySubscriptionID imageTerm)
             (GalleryResourceGroupName imageTerm) (GalleryName imageTerm) (Name imageTerm))
           = map Inr vss"
  shows "fst (GetCustomImageID_candidate r p imageTerm)
           = custom_scan GalleryImageVersion_zero (concat vss)"
    and "custom_scan GalleryImageVersion_zero (concat vss) = Inr best \<Longrightarrow>
         snd (GetCustomImageID_candidate r p imageTerm)
           = p\<lparr>calls := calls p @ replicate (length vss)
                 (GalleryNextPage (GallerySubscriptionID imageTerm)
                    (GalleryResourceGroupName imageTerm) (GalleryName imageTerm)
                    (Name imageTerm))\<rparr>"
proof -
  let ?c = "GalleryNextPage (GallerySubscriptionID imageTerm)
              (GalleryResourceGroupName imageTerm) (GalleryName imageTerm) (Name imageTerm)"
  have 1: "fst (pager_loop ?c custom_scan GalleryImageVersion_zero (map Inr vss) (calls p))
             = custom_scan GalleryImageVersion_zero (concat vss)"
    by (rule pager_loop_all_pages) (simp_all add: custom_scan_append)
  show "fst (GetCustomImageID_candidate r p imageTerm)
           = custom_scan GalleryImageVersion_zero (concat vss)"
    using 1 by (simp add: GetCustomImageID_candidate_def Let_def assms case_prod_beta)
  assume "custom_scan GalleryImageVersion_zero (concat vss) = Inr best"
  then have "snd (pager_loop ?c custom_scan GalleryImageVersion_zero (map Inr vss) (calls p))
          = calls p @ replicate (length vss) ?c"
    by (intro pager_loop_all_calls) (simp_all add: custom_scan_append)
  then show "snd (GetCustomImageID_candidate r p imageTerm)
           = p\<lparr>calls := calls p @ replicate (length vss) ?c\<rparr>"
    by (simp add: GetCustomImageID_candidate_def Let_def assms case_prod_beta)
qed

text \<open>
  Claim C10. For a custom image term with an empty version, on a cache miss, when the
  gallery listing is fetched completely and holds no record, \<open>GetCustomImageID\<close>
  dereferences the nil id of the zero candidate: it neither returns an id nor an error,
  it panics.
\<close>

theorem GetCustomImageID_empty_listing_panics:
  assumes "cache_Get (imageCache p) now (GetCustomImageID_key imageTerm) = None"
    and "NewDefaultAzureCredential r = None"
    and "NewClientFactory r (GallerySubscriptionID imageTerm) = None"
    and "Version imageTerm = []"
    and "pages (NewListByGalleryImagePager r (GallerySubscriptionID imageTerm)
             (GalleryResourceGroupName imageTerm) (GalleryName imageTerm) (Name imageTerm))
           = map Inr vss"
    and "concat vss = []"
  shows "fst (GetCustomImageID r now p imageTerm) = Inl NilPanic"
proof -
  have "custom_scan GalleryImageVersion_zero (concat vss) = Inr GalleryImageVersion_zero"
    by (simp only: assms(6) custom_scan.simps)
  with GetCustomImageID_candidate_listing(1)[OF assms(4,5), of p]
  have "fst (GetCustomImageID_candidate r p imageTerm) = Inr GalleryImageVersion_zero"
    by simp
  then show ?thesis
    by (cases "GetCustomImageID_candidate r p imageTerm")
       (simp add: GetCustomImageID_miss[OF assms(1-3)] GalleryImageVersion_zero_def)
qed

theorem GetCustomImageID_empty_listing_panics_witness:
  "cache_Get (imageCache ex_provider) 0 (GetCustomImageID_key (ex_term\<lparr>Name := ''empty''\<rparr>)) = None
   \<and> NewDefaultAzureCredential ex_remote = None
   \<and> NewClientFactory ex_remote ''gsub'' = None
   \<and> pages (NewListByGalleryImagePager ex_remote ''gsub'' ''grg'' ''gal'' ''empty'')
        = map Inr [[], []]
   \<and> fst (GetCustomImageID ex_remote 0 ex_provider (ex_term\<lparr>Name := ''empty''\<rparr>)) = Inl NilPanic"
proof -
  have h: "cache_Get (imageCache ex_provider) 0 (GetCustomImageID_key (ex_term\<lparr>Name := ''empty''\<rparr>)) = None"
    "NewDefaultAzureCredential ex_remote = None"
    "NewClientFactory ex_remote ''gsub'' = None"
    "pages (NewListByGalleryImagePager ex_remote ''gsub'' ''grg'' ''gal'' ''empty'')
        = map Inr [[], []]"
    by (simp_all add: ex_provider_def ex_remote_def cache_Get_def pages_def)
  have "fst (GetCustomImageID ex_remote 0 ex_provider (ex_term\<lparr>Name := ''empty''\<rparr>)) = Inl NilPanic"
    using GetCustomImageID_empty_listing_panics[of ex_provider 0 "ex_term\<lparr>Name := ''empty''\<rparr>"
        ex_remote "[[], []]"] h
    by (simp add: ex_term_def)
  with h show ?thesis by blast
qed

text \<open>
  Claim C8. On a cache miss, with the credential and the client established: for a term
  with a version, \<open>GetCustomImageID\<close> issues exactly one point lookup for that version
  and no listing call, and returns the lookup's error as it is (or the id found); for a
  term without version it issues listing calls only, one per page, and returns the id of
  the record with the latest publish date (the first of them in listing order).
\<close>

theorem GetCustomImageID_pinned_or_latest:
  assumes miss: "cache_Get (imageCache p) now (GetCustomImageID_key imageTerm) = None"
    and cred: "NewDefaultAzureCredential r = None"
    and client: "NewClientFactory r (GallerySubscriptionID imageTerm) = None"
  shows "(Version imageTerm \<noteq> [] \<longrightarrow>
            calls (snd (GetCustomImageID r now p imageTerm))
              = calls p @ [GalleryGet (GallerySubscriptionID imageTerm)
                   (GalleryResourceGroupName imageTerm) (GalleryName imageTerm)
                   (Name imageTerm) (Version imageTerm)]
            \<and> (\<forall>e. GalleryImageVersions_Get r (GallerySubscriptionID imageTerm)
                      (GalleryResourceGroupName imageTerm) (GalleryName imageTerm)
                      (Name imageTerm) (Version imageTerm) = Inl e
                   \<longrightarrow> fst (GetCustomImageID r now p imageTerm) = Inl (Err e))
            \<and> (\<forall>imageInfo imageID.
                   GalleryImageVersions_Get r (GallerySubscriptionID imageTerm)
                      (GalleryResourceGroupName imageTerm) (GalleryName imageTerm)
                      (Name imageTerm) (Version imageTerm) = Inr imageInfo
                   \<and> giv_ID imageInfo = Some imageID
                   \<longrightarrow> fst (GetCustomImageID r now p imageTerm) = Inr imageID))
       \<and> (Version imageTerm = []
            \<and> pages (NewListByGalleryImagePager r (GallerySubscriptionID imageTerm)
                  (GalleryResourceGroupName imageTerm) (GalleryName imageTerm)
                  (Name imageTerm)) = map Inr vss
            \<and> concat vss = map Some (pre @ b # post)
            \<and> giv_ID b = Some imageID
            \<and> \<not> isl (giv_PublishedDate b)
            \<and> (\<forall>u\<in>set pre. \<not> isl (giv_PublishedDate u)
                  \<and> projr (giv_PublishedDate u) < projr (giv_PublishedDate b))
            \<and> (\<forall>u\<in>set post. \<not> isl (giv_PublishedDate u)
                  \<and> projr (giv_PublishedDate u) \<le> projr (giv_PublishedDate b))
          \<longrightarrow> fst (GetCustomImageID r now p imageTerm) = Inr imageID
            \<and> vss \<noteq> []
            \<and> calls (snd (GetCustomImageID r now p imageTerm))
                = calls p @ replicate (length vss)
                    (GalleryNextPage (GallerySubscriptionID imageTerm)
                       (GalleryResourceGroupName imageTerm) (GalleryName imageTerm)
                       (Name imageTerm)))"
proof (intro conjI impI allI)
  assume v: "Version imageTerm \<noteq> []"
  note cand = GetCustomImageID_candidate_pinned[OF v, of r p]
  show "calls (snd (GetCustomImageID r now p imageTerm))
              = calls p @ [GalleryGet (GallerySubscriptionID imageTerm)
                   (GalleryResourceGroupName imageTerm) (GalleryName imageTerm)
                   (Name imageTerm) (Version imageTerm)]"
    by (simp add: GetCustomImageID_miss[OF miss cred client] cand
          split: sum.splits option.splits)
  {
    fix e
    assume "GalleryImageVersions_Get r (GallerySubscriptionID imageTerm)
              (GalleryResourceGroupName imageTerm) (GalleryName imageTerm)
              (Name imageTerm) (Version imageTerm) = Inl e"
    then show "fst (GetCustomImageID r now p imageTerm) = Inl (Err e)"
      by (simp add: GetCustomImageID_miss[OF miss cred client] cand)
  }
  {
    fix imageInfo imageID
    assume "GalleryImageVersions_Get r (GallerySubscriptionID imageTerm)
              (GalleryResourceGroupName imageTerm) (GalleryName imageTerm)
              (Name imageTerm) (Version imageTerm) = Inr imageInfo
            \<and> giv_ID imageInfo = Some imageID"
    then show "fst (GetCustomImageID r now p imageTerm) = Inr imageID"
      by (simp add: GetCustomImageID_miss[OF miss cred client] cand)
  }
next
  assume H: "Version imageTerm = []
            \<and> pages (NewListByGalleryImagePager r (GallerySubscriptionID imageTerm)
                  (GalleryResourceGroupName imageTerm) (GalleryName imageTerm)
                  (Name imageTerm)) = map Inr vss
            \<and> concat vss = map Some (pre @ b # post)
            \<and> giv_ID b = Some imageID
            \<and> \<not> isl (giv_PublishedDate b)
            \<and> (\<forall>u\<in>set pre. \<not> isl (giv_PublishedDate u)
                  \<and> projr (giv_PublishedDate u) < projr (giv_PublishedDate b))
            \<and> (\<forall>u\<in>set post. \<not> isl (giv_PublishedDate u)
                  \<and> projr (giv_PublishedDate u) \<le> projr (giv_PublishedDate b))"
  then have v: "Version imageTerm = []"
    and pg: "pages (NewListByGalleryImagePager r (GallerySubscriptionID imageTerm)
                  (GalleryResourceGroupName imageTerm) (GalleryName imageTerm)
                  (Name imageTerm)) = map Inr vss"
    and c: "concat vss = map Some (pre @ b # post)"
    and b: "giv_ID b = Some imageID"
    and wf: "giv_ID b \<noteq> None" "\<not> isl (giv_PublishedDate b)"
        "\<forall>u\<in>set post. \<not> isl (giv_PublishedDate u)
            \<and> projr (giv_PublishedDate u) \<le> projr (giv_PublishedDate b)"
    and pre: "\<forall>u\<in>set pre. \<not> isl (giv_PublishedDate u)
                  \<and> projr (giv_PublishedDate u) < projr (giv_PublishedDate b)"
    by auto
  have scan: "custom_scan GalleryImageVersion_zero (concat vss) = Inr b"
    unfolding c
    by (rule custom_scan_reaches[OF wf _ pre]) (simp add: GalleryImageVersion_zero_def)
  have 1: "fst (GetCustomImageID_candidate r p imageTerm) = Inr b"
    using GetCustomImageID_candidate_listing(1)[OF v pg, of p] scan by simp
  have 2: "snd (GetCustomImageID_candidate r p imageTerm)
             = p\<lparr>calls := calls p @ replicate (length vss)
                 (GalleryNextPage (GallerySubscriptionID imageTerm)
                    (GalleryResourceGroupName imageTerm) (GalleryName imageTerm)
                    (Name imageTerm))\<rparr>"
    using scan by (rule GetCustomImageID_candidate_listing(2)[OF v pg])
  from 1 2 b show "fst (GetCustomImageID r now p imageTerm) = Inr imageID"
    by (cases "GetCustomImageID_candidate r p imageTerm")
       (simp add: GetCustomImageID_miss[OF miss cred client])
  from pg show "vss \<noteq> []"
    by (auto simp: pages_def)
  from 1 2 b show "calls (snd (GetCustomImageID r now p imageTerm))
                = calls p @ replicate (length vss)
                    (GalleryNextPage (GallerySubscriptionID imageTerm)
                       (GalleryResourceGroupName imageTerm) (GalleryName imageTerm)
                       (Name imageTerm))"
    by (cases "GetCustomImageID_candidate r p imageTerm")
       (simp add: GetCustomImageID_miss[OF miss cred client])
qed

theorem GetCustomImageID_pinned_or_latest_witness:
  "cache_Get (imageCache ex_provider) 0 (GetCustomImageID_key ex_term) = None
   \<and> cache_Get (imageCache ex_provider) 0
        (GetCustomImageID_key (ex_term\<lparr>Version := ''1.0.0''\<rparr>)) = None
   \<and> cache_Get (imageCache ex_provider) 0
        (GetCustomImageID_key (ex_term\<lparr>Version := ''9.9.9''\<rparr>)) = None
   \<and> NewDefaultAzureCredential ex_remote = None
   \<and> NewClientFactory ex_remote ''gsub'' = None
   \<and> fst (GetCustomImageID ex_remote 0 ex_provider (ex_term\<lparr>Version := ''1.0.0''\<rparr>))
       = Inr ''/img/1.0.0''
   \<and> calls (snd (GetCustomImageID ex_remote 0 ex_provider (ex_term\<lparr>Version := ''1.0.0''\<rparr>)))
       = [GalleryGet ''gsub'' ''grg'' ''gal'' ''img'' ''1.0.0'']
   \<and> fst (GetCustomImageID ex_remote 0 ex_provider (ex_term\<lparr>Version := ''9.9.9''\<rparr>))
       = Inl (Err ''not found'')
   \<and> fst (GetCustomImageID ex_remote 0 ex_provider ex_term) = Inr ''/img/3.0.0''
   \<and> calls (snd (GetCustomImageID ex_remote 0 ex_provider ex_term))
       = [GalleryNextPage ''gsub'' ''grg'' ''gal'' ''img'',
          GalleryNextPage ''gsub'' ''grg'' ''gal'' ''img'']"
proof -
  have h: "cache_Get (imageCache ex_provider) 0 (GetCustomImageID_key ex_term) = None"
    "cache_Get (imageCache ex_provider) 0
        (GetCustomImageID_key (ex_term\<lparr>Version := ''1.0.0''\<rparr>)) = None"
    "cache_Get (imageCache ex_provider) 0
        (GetCustomImageID_key (ex_term\<lparr>Version := ''9.9.9''\<rparr>)) = None"
    "NewDefaultAzureCredential ex_remote = None"
    "NewClientFactory ex_remote ''gsub'' = None"
    by (simp_all add: ex_provider_def ex_remote_def cache_Get_def)
  have g: "NewClientFactory ex_remote (GallerySubscriptionID t) = None" for t
    by (simp add: ex_remote_def)
  have pinned: "fst (GetCustomImageID ex_remote 0 ex_provider (ex_term\<lparr>Version := ''1.0.0''\<rparr>))
                  = Inr ''/img/1.0.0''
     \<and> calls (snd (GetCustomImageID ex_remote 0 ex_provider (ex_term\<lparr>Version := ''1.0.0''\<rparr>)))
         = [GalleryGet ''gsub'' ''grg'' ''gal'' ''img'' ''1.0.0'']"
    using GetCustomImageID_pinned_or_latest[OF h(2) h(4) g, THEN conjunct1]
    by (simp add: ex_term_def ex_remote_def ex_giv_def ex_provider_def)
  have missing: "fst (GetCustomImageID ex_remote 0 ex_provider (ex_term\<lparr>Version := ''9.9.9''\<rparr>))
                  = Inl (Err ''not found'')"
    using GetCustomImageID_pinned_or_latest[OF h(3) h(4) g, THEN conjunct1]
    by (simp add: ex_term_def ex_remote_def ex_giv_def ex_provider_def)
  have latest: "fst (GetCustomImageID ex_remote 0 ex_provider ex_term) = Inr ''/img/3.0.0''
     \<and> calls (snd (GetCustomImageID ex_remote 0 ex_provider ex_term))
       = [GalleryNextPage ''gsub'' ''grg'' ''gal'' ''img'',
          GalleryNextPage ''gsub'' ''grg'' ''gal'' ''img'']"
    using GetCustomImageID_pinned_or_latest[OF h(1) h(4) g, THEN conjunct2,
        of "[[Some (ex_giv ''/img/1.0.0'' 1), Some (ex_giv ''/img/3.0.0'' 5)],
             [Some (ex_giv ''/img/2.0.0'' 5)]]"
           "[ex_giv ''/img/1.0.0'' 1]" "ex_giv ''/img/3.0.0'' 5" "[ex_giv ''/img/2.0.0'' 5]"
           "''/img/3.0.0''"]
    by (simp add: ex_term_def ex_remote_def ex_giv_def ex_provider_def pages_def
          giv_PublishedDate_def)
  from h pinned missing latest show ?thesis by blast
qed

section \<open>The orchestrator\<close>

lemma Get_defaultImages_find:
  "Get_defaultImages r Compatible p instanceType imageFamily =
     (case find (\<lambda>d. Compatible (it_Requirements instanceType) (Requirements d)
                       [AllowUndefinedWellKnownAndRestrictedLabels] = None) imageFamily of
        None \<Rightarrow> None
      | Some d \<Rightarrow>
          Some (case getCIGImageID r p (ImageDefinition d) (PublicGalleryURL d) of
                  (Inl f, p') \<Rightarrow> (Inl f, p')
                | (Inr imageID, p') \<Rightarrow> (Inr (Distro d, imageID), p')))"
  by (induction imageFamily) (simp_all add: Let_def split: prod.splits sum.splits)

text \<open>
  Claim C1. When the node class's custom image term is the zero value, \<open>Get\<close> takes
  the default-catalog path and, for the matched entry, returns that entry's distro
  together with the image id the community resolver gives (or the resolver's failure);
  otherwise it takes the custom path and returns the term's distro name together with
  the id \<open>GetCustomImageID\<close> gives (or its failure).
\<close>

theorem Get_default_or_custom:
  "(CustomImageTerm nodeClassSpec = CustomImageTerm_zero
      \<and> find (\<lambda>d. Compatible (it_Requirements instanceType) (Requirements d)
                    [AllowUndefinedWellKnownAndRestrictedLabels] = None) imageFamily
          = Some matched
    \<longrightarrow> Get r Compatible now ctx p nodeClassSpec instanceType imageFamily
          = (case getCIGImageID r p (ImageDefinition matched) (PublicGalleryURL matched) of
               (Inl f, p') \<Rightarrow> (Inl f, p')
             | (Inr imageID, p') \<Rightarrow> (Inr (Distro matched, imageID), p')))
   \<and> (CustomImageTerm nodeClassSpec \<noteq> CustomImageTerm_zero
    \<longrightarrow> Get r Compatible now ctx p nodeClassSpec instanceType imageFamily
          = (case GetCustomImageID r now p (CustomImageTerm nodeClassSpec) of
               (Inl f, p') \<Rightarrow> (Inl f, p')
             | (Inr imageID, p') \<Rightarrow>
                 (Inr (DistroName (CustomImageTerm nodeClassSpec), imageID), p')))"
  by (simp add: Get_def Get_defaultImages_find)

theorem Get_default_or_custom_witness:
  "CustomImageTerm ex_default = CustomImageTerm_zero
   \<and> find (\<lambda>d. ex_Compatible (it_Requirements ex_instance) (Requirements d)
                 [AllowUndefinedWellKnownAndRestrictedLabels] = None) [ex_arm_image, ex_image]
       = Some ex_image
   \<and> fst (Get ex_remote ex_Compatible 0 ex_ctx ex_provider ex_default ex_instance
            [ex_arm_image, ex_image])
       = Inr (''aks-ubuntu-containerd-22.04-gen2'',
              ''/CommunityGalleries/2204gen2containerd/images/AKSUbuntu/versions/'')
   \<and> CustomImageTerm \<lparr>CustomImageTerm = ex_term\<rparr> \<noteq> CustomImageTerm_zero
   \<and> fst (Get ex_remote ex_Compatible 0 ex_ctx ex_provider \<lparr>CustomImageTerm = ex_term\<rparr>
            ex_instance [ex_arm_image, ex_image])
       = Inr (''aks-ubuntu-containerd-22.04-gen2'', ''/img/3.0.0'')"
proof -
  have h: "CustomImageTerm ex_default = CustomImageTerm_zero"
    "find (\<lambda>d. ex_Compatible (it_Requirements ex_instance) (Requirements d)
                 [AllowUndefinedWellKnownAndRestrictedLabels] = None) [ex_arm_image, ex_image]
       = Some ex_image"
    "CustomImageTerm \<lparr>CustomImageTerm = ex_term\<rparr> \<noteq> CustomImageTerm_zero"
    by (simp_all add: ex_default_def ex_Compatible_def ex_instance_def ex_arm_image_def
          ex_image_def ex_term_def CustomImageTerm_zero_def)
  have a: "fst (Get ex_remote ex_Compatible 0 ex_ctx ex_provider ex_default ex_instance
            [ex_arm_image, ex_image])
       = Inr (''aks-ubuntu-containerd-22.04-gen2'',
              ''/CommunityGalleries/2204gen2containerd/images/AKSUbuntu/versions/'')"
    using Get_default_or_custom[of ex_default ex_Compatible ex_instance
        "[ex_arm_image, ex_image]" ex_image ex_remote 0 ex_ctx ex_provider, THEN conjunct1] h
    by (simp add: ex_image_def getCIGImageID_def latestNodeImageVersionCommunity_def
          ex_remote_def ex_provider_def pages_def BuildImageIDCIG_def
          communityImageIDFormat_def CommunityGalleryImageVersion_zero_def FromPtr_def)
  have b: "fst (Get ex_remote ex_Compatible 0 ex_ctx ex_provider \<lparr>CustomImageTerm = ex_term\<rparr>
            ex_instance [ex_arm_image, ex_image])
       = Inr (''aks-ubuntu-containerd-22.04-gen2'', ''/img/3.0.0'')"
    using Get_default_or_custom[of "\<lparr>CustomImageTerm = ex_term\<rparr>" ex_Compatible ex_instance
        "[ex_arm_image, ex_image]" ex_image ex_remote 0 ex_ctx ex_provider, THEN conjunct2] h
    by (simp add: ex_term_def GetCustomImageID_def GetCustomImageID_key_def
          sharedImageGalleryImageIDFormat_def cache_Get_def ex_provider_def ex_remote_def
          GetCustomImageID_candidate_def pages_def GalleryImageVersion_zero_def
          custom_newer_def giv_PublishedDate_def ex_giv_def HasChanged_def Let_def)
  from h a b show ?thesis by blast
qed

text \<open>
  Claim C4. \<open>Get\<close> passes the image definition and the gallery URL to
  \<open>getCIGImageID\<close> in the opposite order of its parameters. For the catalog entry
  with gallery \<open>AKSUbuntu\<close> and image definition \<open>2204gen2containerd\<close>, whose latest
  published version is \<open>2024.03\<close>, it lists the gallery \<open>2204gen2containerd\<close> for the
  image \<open>AKSUbuntu\<close> and returns an id with the two segments exchanged, where
  \<open>resolveImageID\<close> on the same entry gives the id of the claimed shape.
\<close>

theorem Get_community_id_arguments_swapped:
  "fst (Get ex_remote ex_Compatible 0 (ex_ctx\<lparr>UseSIG := False\<rparr>) ex_provider ex_default
          ex_instance [ex_image])
     = Inr (''aks-ubuntu-containerd-22.04-gen2'',
            ''/CommunityGalleries/2204gen2containerd/images/AKSUbuntu/versions/'')
   \<and> calls (snd (Get ex_remote ex_Compatible 0 (ex_ctx\<lparr>UseSIG := False\<rparr>) ex_provider
                   ex_default ex_instance [ex_image]))
     = [CommunityNextPage ''westeurope'' ''2204gen2containerd'' ''AKSUbuntu'']
   \<and> resolveImageID ex_remote (ex_ctx\<lparr>UseSIG := False\<rparr>) ex_provider ex_image False
     = (Inr ''/CommunityGalleries/AKSUbuntu/images/2204gen2containerd/versions/2024.03'',
        ex_provider\<lparr>calls :=
          [CommunityNextPage ''westeurope'' ''AKSUbuntu'' ''2204gen2containerd'',
           CommunityNextPage ''westeurope'' ''AKSUbuntu'' ''2204gen2containerd'']\<rparr>)"
  by (simp add: Get_def ex_default_def ex_Compatible_def ex_instance_def ex_image_def
        getCIGImageID_def latestNodeImageVersionCommunity_def resolveImageID_def
        ex_remote_def ex_provider_def pages_def BuildImageIDCIG_def
        communityImageIDFormat_def CommunityGalleryImageVersion_zero_def FromPtr_def
        community_newer_def civ_PublishedDate_def ex_civ_def Let_def)

text \<open>
  Claim C2. On the default path \<open>Get\<close> calls the community resolver directly: with
  \<open>UseSIG\<close> set it still lists the community gallery, it stores nothing in the image
  cache, and a second call repeats the remote call; \<open>GetLatestImageID\<close> on the same
  entry resolves through the shared gallery, stores the id, and answers the second call
  from the cache.
\<close>

theorem Get_bypasses_cache_and_flag:
  "UseSIG ex_ctx
   \<and> fst (Get ex_remote ex_Compatible 0 ex_ctx ex_provider ex_default ex_instance [ex_image])
     = Inr (''aks-ubuntu-containerd-22.04-gen2'',
            ''/CommunityGalleries/2204gen2containerd/images/AKSUbuntu/versions/'')
   \<and> calls (snd (Get ex_remote ex_Compatible 0 ex_ctx ex_provider ex_default ex_instance
                   [ex_image]))
     = [CommunityNextPage ''westeurope'' ''2204gen2containerd'' ''AKSUbuntu'']
   \<and> imageCache (snd (Get ex_remote ex_Compatible 0 ex_ctx ex_provider ex_default
                        ex_instance [ex_image])) = Map.empty
   \<and> calls (snd (Get ex_remote ex_Compatible 1 ex_ctx
                   (snd (Get ex_remote ex_Compatible 0 ex_ctx ex_provider ex_default
                           ex_instance [ex_image]))
                   ex_default ex_instance [ex_image]))
     = [CommunityNextPage ''westeurope'' ''2204gen2containerd'' ''AKSUbuntu'',
        CommunityNextPage ''westeurope'' ''2204gen2containerd'' ''AKSUbuntu'']
   \<and> fst (GetLatestImageID ex_remote 0 ex_ctx ex_provider ex_image)
     = Inr ''/subscriptions/sigsub/resourceGroups/AKS-Ubuntu/providers/Microsoft.Compute/galleries/AKSUbuntu/images/2204gen2containerd/versions/2.2''
   \<and> calls (snd (GetLatestImageID ex_remote 0 ex_ctx ex_provider ex_image))
     = [NodeImageVersionsList ''westeurope'' ''sub'']
   \<and> GetLatestImageID ex_remote 1 ex_ctx
        (snd (GetLatestImageID ex_remote 0 ex_ctx ex_provider ex_image)) ex_image
     = (Inr ''/subscriptions/sigsub/resourceGroups/AKS-Ubuntu/providers/Microsoft.Compute/galleries/AKSUbuntu/images/2204gen2containerd/versions/2.2'',
        snd (GetLatestImageID ex_remote 0 ex_ctx ex_provider ex_image))"
  by (simp add: Get_def ex_default_def ex_Compatible_def ex_instance_def ex_image_def
        getCIGImageID_def latestNodeImageVersionCommunity_def resolveImageID_def
        ex_remote_def ex_provider_def pages_def BuildImageIDCIG_def
        communityImageIDFormat_def CommunityGalleryImageVersion_zero_def FromPtr_def
        Let_def ex_ctx_def GetLatestImageID_def GetLatestImageID_key_def sharedImageKey_def
        communityImageKey_def cache_Get_def cache_Set_def getSIGImageID_def
        sharedImageGalleryImageIDFormat_def imageExpirationInterval_def)

section \<open>Caching\<close>

lemma cache_Get_miss_mono:
  "cache_Get c now k = None \<Longrightarrow> now \<le> now2 \<Longrightarrow> cache_Get c now2 k = None"
  by (auto simp: cache_Get_def split: option.splits if_splits)

lemma cache_Get_after_Set:
  "now \<le> now2 \<Longrightarrow> now2 < now + imageExpirationInterval \<Longrightarrow>
   cache_Get (cache_Set c now k x imageExpirationInterval) now2 k = Some x"
  by (simp add: cache_Get_def cache_Set_def imageExpirationInterval_def)

lemma latestNodeImageVersionCommunity_state:
  "imageCache (snd (latestNodeImageVersionCommunity r p g n)) = imageCache p"
  "length (calls p) < length (calls (snd (latestNodeImageVersionCommunity r p g n)))"
  using pager_loop_calls_grow[of "calls p" "CommunityNextPage (location p) g n"
      community_scan CommunityGalleryImageVersion_zero "NewListPager r (location p) g n"]
  by (simp_all add: latestNodeImageVersionCommunity_def Let_def case_prod_beta)

lemma getCIGImageID_snd:
  "snd (getCIGImageID r p g n) = snd (latestNodeImageVersionCommunity r p g n)"
  by (cases "latestNodeImageVersionCommunity r p g n")
     (simp add: getCIGImageID_def split: sum.splits)

lemma resolveImageID_state:
  "imageCache (snd (resolveImageID r ctx p d b)) = imageCache p"
  "length (calls p) < length (calls (snd (resolveImageID r ctx p d b)))"
  by (simp_all add: resolveImageID_def getCIGImageID_snd latestNodeImageVersionCommunity_state
        getSIGImageID_def Let_def split: sum.splits)

lemma GetCustomImageID_candidate_state:
  "imageCache (snd (GetCustomImageID_candidate r p t)) = imageCache p"
  "length (calls p) < length (calls (snd (GetCustomImageID_candidate r p t)))"
  using pager_loop_calls_grow[of "calls p" "GalleryNextPage (GallerySubscriptionID t)
      (GalleryResourceGroupName t) (GalleryName t) (Name t)"
      custom_scan GalleryImageVersion_zero
      "NewListByGalleryImagePager r (GallerySubscriptionID t)
      (GalleryResourceGroupName t) (GalleryName t) (Name t)"]
  by (simp_all add: GetCustomImageID_candidate_def Let_def case_prod_beta)

lemma GetLatestImageID_miss:
  assumes "cache_Get (imageCache p) now (GetLatestImageID_key ctx d) = None"
  shows "GetLatestImageID r now ctx p d =
     (case resolveImageID r ctx p d (UseSIG ctx) of
        (Inl f, p') \<Rightarrow> (Inl f, p')
      | (Inr imageID, p') \<Rightarrow>
          (Inr imageID,
           p'\<lparr>imageCache := cache_Set (imageCache p') now (GetLatestImageID_key ctx d)
                  imageID imageExpirationInterval,
              logs := logs p' @ [imageID]\<rparr>))"
  using assms by (simp add: GetLatestImageID_def Let_def)

lemma GetLatestImageID_hit:
  "cache_Get (imageCache p) now (GetLatestImageID_key ctx d) = Some imageID \<Longrightarrow>
   GetLatestImageID r now ctx p d = (Inr imageID, p)"
  by (simp add: GetLatestImageID_def Let_def)

lemma GetCustomImageID_hit:
  "cache_Get (imageCache p) now (GetCustomImageID_key t) = Some imageID \<Longrightarrow>
   GetCustomImageID r now p t = (Inr imageID, p)"
  by (simp add: GetCustomImageID_def Let_def)

lemma GetLatestImageID_success_cached:
  assumes "cache_Get (imageCache p) now (GetLatestImageID_key ctx d) = None"
    and "GetLatestImageID r now ctx p d = (Inr imageID, p1)"
  shows "\<exists>c. imageCache p1
            = cache_Set c now (GetLatestImageID_key ctx d) imageID imageExpirationInterval"
  using assms(2) unfolding GetLatestImageID_miss[OF assms(1)]
  by (auto split: prod.splits sum.splits)

lemma GetCustomImageID_success_cached:
  assumes "cache_Get (imageCache p) now (GetCustomImageID_key t) = None"
    and "GetCustomImageID r now p t = (Inr imageID, p1)"
  shows "\<exists>c. imageCache p1
            = cache_Set c now (GetCustomImageID_key t) imageID imageExpirationInterval"
  using assms
  by (auto simp: GetCustomImageID_def Let_def HasChanged_def
        split: prod.splits sum.splits option.splits)

text \<open>
  The cache-wrapped lookups (\<open>GetCustomImageID\<close>, \<open>Get\<close> on the custom path,
  \<open>GetLatestImageID\<close>) are idempotent within the expiration interval: when a call
  misses the cache and returns an image id, a call with the same inputs made less than
  the interval later returns the same id and leaves the provider as it was, whatever the
  remote services would answer by then.
\<close>

lemma repeated_resolution_served_from_cache:
  assumes "now1 \<le> now2" and "now2 < now1 + imageExpirationInterval"
  shows "(cache_Get (imageCache p) now1 (GetCustomImageID_key imageTerm) = None
            \<and> GetCustomImageID r1 now1 p imageTerm = (Inr imageID, p1)
          \<longrightarrow> GetCustomImageID r2 now2 p1 imageTerm = (Inr imageID, p1))
       \<and> (CustomImageTerm nodeClassSpec \<noteq> CustomImageTerm_zero
            \<and> cache_Get (imageCache p) now1
                 (GetCustomImageID_key (CustomImageTerm nodeClassSpec)) = None
            \<and> Get r1 Compatible now1 ctx p nodeClassSpec instanceType imageFamily
                 = (Inr (distro, imageID), p1)
          \<longrightarrow> Get r2 Compatible now2 ctx p1 nodeClassSpec instanceType imageFamily
                 = (Inr (distro, imageID), p1))
       \<and> (cache_Get (imageCache p) now1 (GetLatestImageID_key ctx defaultImage) = None
            \<and> GetLatestImageID r1 now1 ctx p defaultImage = (Inr imageID, p1)
          \<longrightarrow> GetLatestImageID r2 now2 ctx p1 defaultImage = (Inr imageID, p1))"
proof -
  have custom: "GetCustomImageID r2 now2 q1 t = (Inr i, q1)"
    if "cache_Get (imageCache p) now1 (GetCustomImageID_key t) = None"
      and "GetCustomImageID r1 now1 p t = (Inr i, q1)" for t i q1
  proof -
    from GetCustomImageID_success_cached[OF that] obtain c where
      "imageCache q1 = cache_Set c now1 (GetCustomImageID_key t) i imageExpirationInterval"
      by blast
    then have "cache_Get (imageCache q1) now2 (GetCustomImageID_key t) = Some i"
      using assms by (simp add: cache_Get_after_Set)
    then show ?thesis by (rule GetCustomImageID_hit)
  qed
  show ?thesis
  proof (intro conjI impI)
    assume "cache_Get (imageCache p) now1 (GetCustomImageID_key imageTerm) = None
            \<and> GetCustomImageID r1 now1 p imageTerm = (Inr imageID, p1)"
    then show "GetCustomImageID r2 now2 p1 imageTerm = (Inr imageID, p1)"
      using custom by blast
  next
    assume H: "CustomImageTerm nodeClassSpec \<noteq> CustomImageTerm_zero
            \<and> cache_Get (imageCache p) now1
                 (GetCustomImageID_key (CustomImageTerm nodeClassSpec)) = None
            \<and> Get r1 Compatible now1 ctx p nodeClassSpec instanceType imageFamily
                 = (Inr (distro, imageID), p1)"
    then have "GetCustomImageID r1 now1 p (CustomImageTerm nodeClassSpec) = (Inr imageID, p1)"
      and d: "distro = DistroName (CustomImageTerm nodeClassSpec)"
      by (auto simp: Get_def split: prod.splits sum.splits)
    with H have "GetCustomImageID r2 now2 p1 (CustomImageTerm nodeClassSpec)
                   = (Inr imageID, p1)"
      using custom by blast
    with H d show "Get r2 Compatible now2 ctx p1 nodeClassSpec instanceType imageFamily
                 = (Inr (distro, imageID), p1)"
      by (simp add: Get_def)
  next
    assume H: "cache_Get (imageCache p) now1 (GetLatestImageID_key ctx defaultImage) = None
            \<and> GetLatestImageID r1 now1 ctx p defaultImage = (Inr imageID, p1)"
    then obtain c where
      "imageCache p1 = cache_Set c now1 (GetLatestImageID_key ctx defaultImage) imageID
          imageExpirationInterval"
      using GetLatestImageID_success_cached by blast
    then have "cache_Get (imageCache p1) now2 (GetLatestImageID_key ctx defaultImage)
                 = Some imageID"
      using assms by (simp add: cache_Get_after_Set)
    then show "GetLatestImageID r2 now2 ctx p1 defaultImage = (Inr imageID, p1)"
      by (rule GetLatestImageID_hit)
  qed
qed

section \<open>Failing remote lookups\<close>

lemma pager_loop_calls_shape:
  "\<exists>k. snd (pager_loop c scan cand pgs tr) = tr @ replicate k c \<and> (pgs \<noteq> [] \<longrightarrow> 0 < k)"
proof (induction pgs arbitrary: cand tr)
  case Nil
  show ?case by simp
next
  case (Cons pg pgs)
  show ?case
  proof (cases pg)
    case (Inl e)
    then have "snd (pager_loop c scan cand (pg # pgs) tr) = tr @ replicate 1 c" by simp
    then show ?thesis by blast
  next
    case pg: (Inr vs)
    show ?thesis
    proof (cases "scan cand vs")
      case (Inl f)
      with pg have "snd (pager_loop c scan cand (pg # pgs) tr) = tr @ replicate 1 c" by simp
      then show ?thesis by blast
    next
      case (Inr cand')
      from Cons.IH[of cand' "tr @ [c]"] obtain k where
        "snd (pager_loop c scan cand' pgs (tr @ [c])) = (tr @ [c]) @ replicate k c"
        by blast
      with pg Inr have "snd (pager_loop c scan cand (pg # pgs) tr) = tr @ replicate (Suc k) c"
        by (simp add: replicate_app_Cons_same)
      then show ?thesis by blast
    qed
  qed
qed

lemma pager_loop_first_call:
  "take (Suc (length tr)) (snd (pager_loop c scan cand (pages pg) tr)) = tr @ [c]"
proof -
  from pager_loop_calls_shape[of c scan cand "pages pg" tr] obtain k where
    "snd (pager_loop c scan cand (pages pg) tr) = tr @ replicate k c" "0 < k"
    by (auto simp: pages_def)
  then show ?thesis by (cases k) simp_all
qed

lemma pager_loop_page_error:
  assumes app: "\<And>cand xs ys. scan cand (xs @ ys) =
                  (case scan cand xs of Inl f \<Rightarrow> Inl f | Inr cand' \<Rightarrow> scan cand' ys)"
    and ok: "scan cand (concat vss) = Inr best"
  shows "pager_loop c scan cand (map Inr vss @ Inl e # rest) tr
           = (Inl (Err e), tr @ replicate (Suc (length vss)) c)"
  using ok
proof (induction vss arbitrary: cand tr)
  case Nil
  show ?case by simp
next
  case (Cons vs vss)
  from Cons.prems obtain cand' where 1: "scan cand vs = Inr cand'"
    and 2: "scan cand' (concat vss) = Inr best"
    by (auto simp: app split: sum.splits)
  have "pager_loop c scan cand' (map Inr vss @ Inl e # rest) (tr @ [c])
          = (Inl (Err e), (tr @ [c]) @ replicate (Suc (length vss)) c)"
    using 2 by (rule Cons.IH)
  with 1 show ?case by (simp add: replicate_app_Cons_same)
qed

lemma community_scan_dated:
  "cand = CommunityGalleryImageVersion_zero \<or> \<not> isl (civ_PublishedDate cand) \<Longrightarrow>
   \<forall>u\<in>set vs. \<not> isl (civ_PublishedDate u) \<Longrightarrow>
   \<exists>best. community_scan cand (map Some vs) = Inr best"
proof (induction vs arbitrary: cand)
  case Nil
  show ?case by simp
next
  case (Cons u vs)
  have u: "\<not> isl (civ_PublishedDate u)" and vs: "\<forall>u\<in>set vs. \<not> isl (civ_PublishedDate u)"
    using Cons.prems(2) by auto
  obtain b where b: "community_newer cand (Some u) = Inr b"
  proof (cases "cand = CommunityGalleryImageVersion_zero")
    case True
    then have "community_newer cand (Some u) = Inr True" by (simp add: community_newer_def)
    then show ?thesis by (rule that)
  next
    case False
    with Cons.prems(1) have "\<not> isl (civ_PublishedDate cand)" by simp
    from community_newer_dated[OF this u] show ?thesis by (rule that)
  qed
  from Cons.IH[of u] u vs obtain b1 where 1: "community_scan u (map Some vs) = Inr b1"
    by blast
  from Cons.IH[of cand] Cons.prems(1) vs obtain b2 where
    2: "community_scan cand (map Some vs) = Inr b2"
    by blast
  from b 1 2 show ?case by (cases b) simp_all
qed

lemma custom_scan_dated:
  "giv_ID cand = None \<or> \<not> isl (giv_PublishedDate cand) \<Longrightarrow>
   \<forall>u\<in>set vs. \<not> isl (giv_PublishedDate u) \<Longrightarrow>
   \<exists>best. custom_scan cand (map Some vs) = Inr best"
proof (induction vs arbitrary: cand)
  case Nil
  show ?case by simp
next
  case (Cons u vs)
  have u: "\<not> isl (giv_PublishedDate u)" and vs: "\<forall>u\<in>set vs. \<not> isl (giv_PublishedDate u)"
    using Cons.prems(2) by auto
  obtain b where b: "custom_newer cand (Some u) = Inr b"
  proof (cases "giv_ID cand = None")
    case True
    then have "custom_newer cand (Some u) = Inr True" by (simp add: custom_newer_def)
    then show ?thesis by (rule that)
  next
    case False
    with Cons.prems(1) have "\<not> isl (giv_PublishedDate cand)" by simp
    from custom_newer_dated[OF this u] show ?thesis by (rule that)
  qed
  from Cons.IH[of u] u vs obtain b1 where 1: "custom_scan u (map Some vs) = Inr b1"
    by blast
  from Cons.IH[of cand] Cons.prems(1) vs obtain b2 where
    2: "custom_scan cand (map Some vs) = Inr b2"
    by blast
  from b 1 2 show ?case by (cases b) simp_all
qed

lemma resolveImageID_first_call:
  "take (Suc (length (calls p))) (calls (snd (resolveImageID r ctx p d useSIG)))
     = calls p @ [if useSIG then NodeImageVersionsList (location p) (subscription p)
                  else CommunityNextPage (location p) (PublicGalleryURL d)
                         (ImageDefinition d)]"
  using pager_loop_first_call[of "calls p" "CommunityNextPage (location p)
      (PublicGalleryURL d) (ImageDefinition d)" community_scan
      CommunityGalleryImageVersion_zero
      "NewListPager r (location p) (PublicGalleryURL d) (ImageDefinition d)"]
  by (simp add: resolveImageID_def getCIGImageID_snd latestNodeImageVersionCommunity_def
        getSIGImageID_def Let_def case_prod_beta split: sum.splits)

lemma GetCustomImageID_candidate_first_call:
  "take (Suc (length (calls p))) (calls (snd (GetCustomImageID_candidate r p t)))
     = calls p @ [if Version t \<noteq> []
                  then GalleryGet (GallerySubscriptionID t) (GalleryResourceGroupName t)
                         (GalleryName t) (Name t) (Version t)
                  else GalleryNextPage (GallerySubscriptionID t)
                         (GalleryResourceGroupName t) (GalleryName t) (Name t)]"
  using pager_loop_first_call[of "calls p" "GalleryNextPage (GallerySubscriptionID t)
      (GalleryResourceGroupName t) (GalleryName t) (Name t)"
      custom_scan GalleryImageVersion_zero
      "NewListByGalleryImagePager r (GallerySubscriptionID t)
      (GalleryResourceGroupName t) (GalleryName t) (Name t)"]
  by (simp add: GetCustomImageID_candidate_def Let_def case_prod_beta)

lemma GetLatestImageID_miss_first_call:
  assumes "cache_Get (imageCache p) now (GetLatestImageID_key ctx d) = None"
  shows "take (Suc (length (calls p))) (calls (snd (GetLatestImageID r now ctx p d)))
     = calls p @ [if UseSIG ctx then NodeImageVersionsList (location p) (subscription p)
                  else CommunityNextPage (location p) (PublicGalleryURL d)
                         (ImageDefinition d)]"
proof -
  have "calls (snd (GetLatestImageID r now ctx p d))
          = calls (snd (resolveImageID r ctx p d (UseSIG ctx)))"
    by (cases "resolveImageID r ctx p d (UseSIG ctx)")
       (simp add: GetLatestImageID_miss[OF assms] split: sum.splits)
  then show ?thesis by (simp only: resolveImageID_first_call)
qed

lemma GetCustomImageID_miss_first_call:
  assumes "cache_Get (imageCache p) now (GetCustomImageID_key t) = None"
    and "NewDefaultAzureCredential r = None"
    and "NewClientFactory r (GallerySubscriptionID t) = None"
  shows "take (Suc (length (calls p))) (calls (snd (GetCustomImageID r now p t)))
     = calls p @ [if Version t \<noteq> []
                  then GalleryGet (GallerySubscriptionID t) (GalleryResourceGroupName t)
                         (GalleryName t) (Name t) (Version t)
                  else GalleryNextPage (GallerySubscriptionID t)
                         (GalleryResourceGroupName t) (GalleryName t) (Name t)]"
proof -
  have "calls (snd (GetCustomImageID r now p t))
          = calls (snd (GetCustomImageID_candidate r p t))"
    by (cases "GetCustomImageID_candidate r p t")
       (simp add: GetCustomImageID_miss[OF assms] split: sum.splits option.splits)
  then show ?thesis by (simp only: GetCustomImageID_candidate_first_call)
qed

lemma GetLatestImageID_version_list_error:
  assumes "cache_Get (imageCache p) now (GetLatestImageID_key ctx d) = None"
    and "UseSIG ctx"
    and "NodeImageVersions_List r (location p) (subscription p) = Inl e"
  shows "GetLatestImageID r now ctx p d
           = (Inl (Err e),
              p\<lparr>calls := calls p @ [NodeImageVersionsList (location p) (subscription p)]\<rparr>)"
  using assms(2,3)
  by (simp add: GetLatestImageID_miss[OF assms(1)] resolveImageID_def getSIGImageID_def
        Let_def)

lemma GetLatestImageID_community_page_error:
  assumes "cache_Get (imageCache p) now (GetLatestImageID_key ctx d) = None"
    and "\<not> UseSIG ctx"
    and "pages (NewListPager r (location p) (PublicGalleryURL d) (ImageDefinition d))
           = map Inr vss @ Inl e # rest"
    and "concat vss = map Some vs"
    and "\<forall>u\<in>set vs. \<not> isl (civ_PublishedDate u)"
  shows "GetLatestImageID r now ctx p d
           = (Inl (Err e),
              p\<lparr>calls := calls p @ replicate (Suc (length vss))
                    (CommunityNextPage (location p) (PublicGalleryURL d)
                       (ImageDefinition d))\<rparr>)"
proof -
  from community_scan_dated[OF _ assms(5), of CommunityGalleryImageVersion_zero]
  obtain best where
    "community_scan CommunityGalleryImageVersion_zero (concat vss) = Inr best"
    unfolding assms(4) by blast
  then have "pager_loop (CommunityNextPage (location p) (PublicGalleryURL d)
                (ImageDefinition d)) community_scan CommunityGalleryImageVersion_zero
              (map Inr vss @ Inl e # rest) (calls p)
        = (Inl (Err e), calls p @ replicate (Suc (length vss))
             (CommunityNextPage (location p) (PublicGalleryURL d) (ImageDefinition d)))"
    by (intro pager_loop_page_error) (simp_all add: community_scan_append)
  then show ?thesis
    using assms(2)
    by (simp add: GetLatestImageID_miss[OF assms(1)] resolveImageID_def getCIGImageID_def
          latestNodeImageVersionCommunity_def assms(3) Let_def)
qed

lemma GetCustomImageID_point_lookup_error:
  assumes "cache_Get (imageCache p) now (GetCustomImageID_key t) = None"
    and "NewDefaultAzureCredential r = None"
    and "NewClientFactory r (GallerySubscriptionID t) = None"
    and "Version t \<noteq> []"
    and "GalleryImageVersions_Get r (GallerySubscriptionID t) (GalleryResourceGroupName t)
           (GalleryName t) (Name t) (Version t) = Inl e"
  shows "GetCustomImageID r now p t
           = (Inl (Err e),
              p\<lparr>calls := calls p @ [GalleryGet (GallerySubscriptionID t)
                    (GalleryResourceGroupName t) (GalleryName t) (Name t) (Version t)]\<rparr>)"
  using assms(5)
  by (simp add: GetCustomImageID_miss[OF assms(1-3)]
        GetCustomImageID_candidate_pinned[OF assms(4)])

lemma GetCustomImageID_listing_page_error:
  assumes "cache_Get (imageCache p) now (GetCustomImageID_key t) = None"
    and "NewDefaultAzureCredential r = None"
    and "NewClientFactory r (GallerySubscriptionID t) = None"
    and "Version t = []"
    and "pages (NewListByGalleryImagePager r (GallerySubscriptionID t)
           (GalleryResourceGroupName t) (GalleryName t) (Name t))
           = map Inr vss @ Inl e # rest"
    and "concat vss = map Some vs"
    and "\<forall>u\<in>set vs. \<not> isl (giv_PublishedDate u)"
  shows "GetCustomImageID r now p t
           = (Inl (Err e),
              p\<lparr>calls := calls p @ replicate (Suc (length vss))
                    (GalleryNextPage (GallerySubscriptionID t)
                       (GalleryResourceGroupName t) (GalleryName t) (Name t))\<rparr>)"
proof -
  from custom_scan_dated[OF _ assms(7), of GalleryImageVersion_zero]
  obtain best where "custom_scan GalleryImageVersion_zero (concat vss) = Inr best"
    unfolding assms(6) by (auto simp: GalleryImageVersion_zero_def)
  then have "pager_loop (GalleryNextPage (GallerySubscriptionID t)
                (GalleryResourceGroupName t) (GalleryName t) (Name t))
              custom_scan GalleryImageVersion_zero
              (map Inr vss @ Inl e # rest) (calls p)
        = (Inl (Err e), calls p @ replicate (Suc (length vss))
             (GalleryNextPage (GallerySubscriptionID t)
                (GalleryResourceGroupName t) (GalleryName t) (Name t)))"
    by (intro pager_loop_page_error) (simp_all add: custom_scan_append)
  then show ?thesis
    by (simp add: GetCustomImageID_miss[OF assms(1-3)] GetCustomImageID_candidate_def
          assms(4,5) Let_def)
qed

lemma GetLatestImageID_retry:
  assumes "cache_Get (imageCache p) now (GetLatestImageID_key ctx d) = None"
    and "now \<le> now2"
  shows "take (Suc (length (calls p @ tr)))
           (calls (snd (GetLatestImageID r2 now2 ctx (p\<lparr>calls := calls p @ tr\<rparr>) d)))
     = calls p @ tr @ [if UseSIG ctx
                       then NodeImageVersionsList (location p) (subscription p)
                       else CommunityNextPage (location p) (PublicGalleryURL d)
                              (ImageDefinition d)]"
proof -
  have "cache_Get (imageCache (p\<lparr>calls := calls p @ tr\<rparr>)) now2 (GetLatestImageID_key ctx d)
          = None"
    using cache_Get_miss_mono[OF assms] by simp
  from GetLatestImageID_miss_first_call[OF this, of r2] show ?thesis by simp
qed

lemma GetCustomImageID_retry:
  assumes "cache_Get (imageCache p) now (GetCustomImageID_key t) = None"
    and "now \<le> now2"
    and "NewDefaultAzureCredential r2 = None"
    and "NewClientFactory r2 (GallerySubscriptionID t) = None"
  shows "take (Suc (length (calls p @ tr)))
           (calls (snd (GetCustomImageID r2 now2 (p\<lparr>calls := calls p @ tr\<rparr>) t)))
     = calls p @ tr @ [if Version t \<noteq> []
                  then GalleryGet (GallerySubscriptionID t) (GalleryResourceGroupName t)
                         (GalleryName t) (Name t) (Version t)
                  else GalleryNextPage (GallerySubscriptionID t)
                         (GalleryResourceGroupName t) (GalleryName t) (Name t)]"
proof -
  have "cache_Get (imageCache (p\<lparr>calls := calls p @ tr\<rparr>)) now2 (GetCustomImageID_key t)
          = None"
    using cache_Get_miss_mono[OF assms(1,2)] by simp
  from GetCustomImageID_miss_first_call[OF this assms(3,4)] show ?thesis by simp
qed

text \<open>
  Claim C9. When, on a cache miss, the remote lookup behind \<open>GetLatestImageID\<close> or
  \<open>GetCustomImageID\<close> fails (the version-list call, a page of the community listing,
  the point lookup of a pinned version, a page of the gallery listing), the call returns
  that very error, the provider is left as it was but for the calls issued, so no cache
  entry is written, and a later call with the same inputs starts by issuing the same
  remote call again.
\<close>

theorem remote_failure_not_cached:
  "(cache_Get (imageCache p) now (GetLatestImageID_key ctx defaultImage) = None
      \<and> UseSIG ctx
      \<and> NodeImageVersions_List r (location p) (subscription p) = Inl e
    \<longrightarrow> GetLatestImageID r now ctx p defaultImage
          = (Inl (Err e),
             p\<lparr>calls := calls p @ [NodeImageVersionsList (location p) (subscription p)]\<rparr>)
      \<and> imageCache (snd (GetLatestImageID r now ctx p defaultImage)) = imageCache p
      \<and> (now \<le> now' \<longrightarrow>
            take (Suc (length (calls (snd (GetLatestImageID r now ctx p defaultImage)))))
              (calls (snd (GetLatestImageID r' now' ctx
                            (snd (GetLatestImageID r now ctx p defaultImage)) defaultImage)))
            = calls (snd (GetLatestImageID r now ctx p defaultImage))
              @ [NodeImageVersionsList (location p) (subscription p)]))
   \<and> (cache_Get (imageCache p) now (GetLatestImageID_key ctx defaultImage) = None
      \<and> \<not> UseSIG ctx
      \<and> pages (NewListPager r (location p) (PublicGalleryURL defaultImage)
                 (ImageDefinition defaultImage)) = map Inr cvss @ Inl e # crest
      \<and> concat cvss = map Some cvs
      \<and> (\<forall>u\<in>set cvs. \<not> isl (civ_PublishedDate u))
    \<longrightarrow> GetLatestImageID r now ctx p defaultImage
          = (Inl (Err e),
             p\<lparr>calls := calls p @ replicate (Suc (length cvss))
                   (CommunityNextPage (location p) (PublicGalleryURL defaultImage)
                      (ImageDefinition defaultImage))\<rparr>)
      \<and> imageCache (snd (GetLatestImageID r now ctx p defaultImage)) = imageCache p
      \<and> (now \<le> now' \<longrightarrow>
            take (Suc (length (calls (snd (GetLatestImageID r now ctx p defaultImage)))))
              (calls (snd (GetLatestImageID r' now' ctx
                            (snd (GetLatestImageID r now ctx p defaultImage)) defaultImage)))
            = calls (snd (GetLatestImageID r now ctx p defaultImage))
              @ [CommunityNextPage (location p) (PublicGalleryURL defaultImage)
                   (ImageDefinition defaultImage)]))
   \<and> (cache_Get (imageCache p) now (GetCustomImageID_key imageTerm) = None
      \<and> NewDefaultAzureCredential r = None
      \<and> NewClientFactory r (GallerySubscriptionID imageTerm) = None
      \<and> Version imageTerm \<noteq> []
      \<and> GalleryImageVersions_Get r (GallerySubscriptionID imageTerm)
           (GalleryResourceGroupName imageTerm) (GalleryName imageTerm) (Name imageTerm)
           (Version imageTerm) = Inl e
    \<longrightarrow> GetCustomImageID r now p imageTerm
          = (Inl (Err e),
             p\<lparr>calls := calls p @ [GalleryGet (GallerySubscriptionID imageTerm)
                   (GalleryResourceGroupName imageTerm) (GalleryName imageTerm)
                   (Name imageTerm) (Version imageTerm)]\<rparr>)
      \<and> imageCache (snd (GetCustomImageID r now p imageTerm)) = imageCache p
      \<and> (now \<le> now' \<and> NewDefaultAzureCredential r' = None
              \<and> NewClientFactory r' (GallerySubscriptionID imageTerm) = None \<longrightarrow>
            take (Suc (length (calls (snd (GetCustomImageID r now p imageTerm)))))
              (calls (snd (GetCustomImageID r' now'
                            (snd (GetCustomImageID r now p imageTerm)) imageTerm)))
            = calls (snd (GetCustomImageID r now p imageTerm))
              @ [GalleryGet (GallerySubscriptionID imageTerm)
                   (GalleryResourceGroupName imageTerm) (GalleryName imageTerm)
                   (Name imageTerm) (Version imageTerm)]))
   \<and> (cache_Get (imageCache p) now (GetCustomImageID_key imageTerm) = None
      \<and> NewDefaultAzureCredential r = None
      \<and> NewClientFactory r (GallerySubscriptionID imageTerm) = None
      \<and> Version imageTerm = []
      \<and> pages (NewListByGalleryImagePager r (GallerySubscriptionID imageTerm)
           (GalleryResourceGroupName imageTerm) (GalleryName imageTerm) (Name imageTerm))
           = map Inr gvss @ Inl e # grest
      \<and> concat gvss = map Some gvs
      \<and> (\<forall>u\<in>set gvs. \<not> isl (giv_PublishedDate u))
    \<longrightarrow> GetCustomImageID r now p imageTerm
          = (Inl (Err e),
             p\<lparr>calls := calls p @ replicate (Suc (length gvss))
                   (GalleryNextPage (GallerySubscriptionID imageTerm)
                      (GalleryResourceGroupName imageTerm) (GalleryName imageTerm)
                      (Name imageTerm))\<rparr>)
      \<and> imageCache (snd (GetCustomImageID r now p imageTerm)) = imageCache p
      \<and> (now \<le> now' \<and> NewDefaultAzureCredential r' = None
              \<and> NewClientFactory r' (GallerySubscriptionID imageTerm) = None \<longrightarrow>
            take (Suc (length (calls (snd (GetCustomImageID r now p imageTerm)))))
              (calls (snd (GetCustomImageID r' now'
                            (snd (GetCustomImageID r now p imageTerm)) imageTerm)))
            = calls (snd (GetCustomImageID r now p imageTerm))
              @ [GalleryNextPage (GallerySubscriptionID imageTerm)
                   (GalleryResourceGroupName imageTerm) (GalleryName imageTerm)
                   (Name imageTerm)]))"
proof (intro conjI impI)
  assume H: "cache_Get (imageCache p) now (GetLatestImageID_key ctx defaultImage) = None
      \<and> UseSIG ctx
      \<and> NodeImageVersions_List r (location p) (subscription p) = Inl e"
  then have miss: "cache_Get (imageCache p) now (GetLatestImageID_key ctx defaultImage) = None"
    and sig: "UseSIG ctx" by blast+
  from H have res: "GetLatestImageID r now ctx p defaultImage
          = (Inl (Err e),
             p\<lparr>calls := calls p @ [NodeImageVersionsList (location p) (subscription p)]\<rparr>)"
    by (intro GetLatestImageID_version_list_error) blast+
  then show "GetLatestImageID r now ctx p defaultImage
          = (Inl (Err e),
             p\<lparr>calls := calls p @ [NodeImageVersionsList (location p) (subscription p)]\<rparr>)" .
  show "imageCache (snd (GetLatestImageID r now ctx p defaultImage)) = imageCache p"
    by (simp add: res)
  assume "now \<le> now'"
  from GetLatestImageID_retry[OF miss this, of "[NodeImageVersionsList (location p) (subscription p)]" r'] sig
  show "take (Suc (length (calls (snd (GetLatestImageID r now ctx p defaultImage)))))
              (calls (snd (GetLatestImageID r' now' ctx
                            (snd (GetLatestImageID r now ctx p defaultImage)) defaultImage)))
            = calls (snd (GetLatestImageID r now ctx p defaultImage))
              @ [NodeImageVersionsList (location p) (subscription p)]"
    by (simp add: res)
next
  assume H: "cache_Get (imageCache p) now (GetLatestImageID_key ctx defaultImage) = None
      \<and> \<not> UseSIG ctx
      \<and> pages (NewListPager r (location p) (PublicGalleryURL defaultImage)
                 (ImageDefinition defaultImage)) = map Inr cvss @ Inl e # crest
      \<and> concat cvss = map Some cvs
      \<and> (\<forall>u\<in>set cvs. \<not> isl (civ_PublishedDate u))"
  then have miss: "cache_Get (imageCache p) now (GetLatestImageID_key ctx defaultImage) = None"
    and sig: "\<not> UseSIG ctx" by blast+
  from H have res: "GetLatestImageID r now ctx p defaultImage
          = (Inl (Err e),
             p\<lparr>calls := calls p @ replicate (Suc (length cvss))
                   (CommunityNextPage (location p) (PublicGalleryURL defaultImage)
                      (ImageDefinition defaultImage))\<rparr>)"
    by (intro GetLatestImageID_community_page_error[where vs = cvs and rest = crest]) blast+
  then show "GetLatestImageID r now ctx p defaultImage
          = (Inl (Err e),
             p\<lparr>calls := calls p @ replicate (Suc (length cvss))
                   (CommunityNextPage (location p) (PublicGalleryURL defaultImage)
                      (ImageDefinition defaultImage))\<rparr>)" .
  show "imageCache (snd (GetLatestImageID r now ctx p defaultImage)) = imageCache p"
    by (simp add: res)
  assume "now \<le> now'"
  from GetLatestImageID_retry[OF miss this, of "replicate (Suc (length cvss))
        (CommunityNextPage (location p) (PublicGalleryURL defaultImage)
           (ImageDefinition defaultImage))" r'] sig
  show "take (Suc (length (calls (snd (GetLatestImageID r now ctx p defaultImage)))))
              (calls (snd (GetLatestImageID r' now' ctx
                            (snd (GetLatestImageID r now ctx p defaultImage)) defaultImage)))
            = calls (snd (GetLatestImageID r now ctx p defaultImage))
              @ [CommunityNextPage (location p) (PublicGalleryURL defaultImage)
                   (ImageDefinition defaultImage)]"
    by (simp add: res)
next
  assume H: "cache_Get (imageCache p) now (GetCustomImageID_key imageTerm) = None
      \<and> NewDefaultAzureCredential r = None
      \<and> NewClientFactory r (GallerySubscriptionID imageTerm) = None
      \<and> Version imageTerm \<noteq> []
      \<and> GalleryImageVersions_Get r (GallerySubscriptionID imageTerm)
           (GalleryResourceGroupName imageTerm) (GalleryName imageTerm) (Name imageTerm)
           (Version imageTerm) = Inl e"
  then have miss: "cache_Get (imageCache p) now (GetCustomImageID_key imageTerm) = None"
    and v: "Version imageTerm \<noteq> []" by blast+
  from H have res: "GetCustomImageID r now p imageTerm
          = (Inl (Err e),
             p\<lparr>calls := calls p @ [GalleryGet (GallerySubscriptionID imageTerm)
                   (GalleryResourceGroupName imageTerm) (GalleryName imageTerm)
                   (Name imageTerm) (Version imageTerm)]\<rparr>)"
    by (intro GetCustomImageID_point_lookup_error) blast+
  then show "GetCustomImageID r now p imageTerm
          = (Inl (Err e),
             p\<lparr>calls := calls p @ [GalleryGet (GallerySubscriptionID imageTerm)
                   (GalleryResourceGroupName imageTerm) (GalleryName imageTerm)
                   (Name imageTerm) (Version imageTerm)]\<rparr>)" .
  show "imageCache (snd (GetCustomImageID r now p imageTerm)) = imageCache p"
    by (simp add: res)
  assume A: "now \<le> now' \<and> NewDefaultAzureCredential r' = None
              \<and> NewClientFactory r' (GallerySubscriptionID imageTerm) = None"
  then have "now \<le> now'" "NewDefaultAzureCredential r' = None"
    "NewClientFactory r' (GallerySubscriptionID imageTerm) = None" by blast+
  from GetCustomImageID_retry[OF miss this, of "[GalleryGet (GallerySubscriptionID imageTerm)
        (GalleryResourceGroupName imageTerm) (GalleryName imageTerm)
        (Name imageTerm) (Version imageTerm)]"] v
  show "take (Suc (length (calls (snd (GetCustomImageID r now p imageTerm)))))
              (calls (snd (GetCustomImageID r' now'
                            (snd (GetCustomImageID r now p imageTerm)) imageTerm)))
            = calls (snd (GetCustomImageID r now p imageTerm))
              @ [GalleryGet (GallerySubscriptionID imageTerm)
                   (GalleryResourceGroupName imageTerm) (GalleryName imageTerm)
                   (Name imageTerm) (Version imageTerm)]"
    by (simp add: res)
next
  assume H: "cache_Get (imageCache p) now (GetCustomImageID_key imageTerm) = None
      \<and> NewDefaultAzureCredential r = None
      \<and> NewClientFactory r (GallerySubscriptionID imageTerm) = None
      \<and> Version imageTerm = []
      \<and> pages (NewListByGalleryImagePager r (GallerySubscriptionID imageTerm)
           (GalleryResourceGroupName imageTerm) (GalleryName imageTerm) (Name imageTerm))
           = map Inr gvss @ Inl e # grest
      \<and> concat gvss = map Some gvs
      \<and> (\<forall>u\<in>set gvs. \<not> isl (giv_PublishedDate u))"
  then have miss: "cache_Get (imageCache p) now (GetCustomImageID_key imageTerm) = None"
    and v: "Version imageTerm = []" by blast+
  from H have res: "GetCustomImageID r now p imageTerm
          = (Inl (Err e),
             p\<lparr>calls := calls p @ replicate (Suc (length gvss))
                   (GalleryNextPage (GallerySubscriptionID imageTerm)
                      (GalleryResourceGroupName imageTerm) (GalleryName imageTerm)
                      (Name imageTerm))\<rparr>)"
    by (intro GetCustomImageID_listing_page_error[where vs = gvs and rest = grest]) blast+
  then show "GetCustomImageID r now p imageTerm
          = (Inl (Err e),
             p\<lparr>calls := calls p @ replicate (Suc (length gvss))
                   (GalleryNextPage (GallerySubscriptionID imageTerm)
                      (GalleryResourceGroupName imageTerm) (GalleryName imageTerm)
                      (Name imageTerm))\<rparr>)" .
  show "imageCache (snd (GetCustomImageID r now p imageTerm)) = imageCache p"
    by (simp add: res)
  assume A: "now \<le> now' \<and> NewDefaultAzureCredential r' = None
              \<and> NewClientFactory r' (GallerySubscriptionID imageTerm) = None"
  then have "now \<le> now'" "NewDefaultAzureCredential r' = None"
    "NewClientFactory r' (GallerySubscriptionID imageTerm) = None" by blast+
  from GetCustomImageID_retry[OF miss this, of "replicate (Suc (length gvss))
        (GalleryNextPage (GallerySubscriptionID imageTerm)
           (GalleryResourceGroupName imageTerm) (GalleryName imageTerm)
           (Name imageTerm))"] v
  show "take (Suc (length (calls (snd (GetCustomImageID r now p imageTerm)))))
              (calls (snd (GetCustomImageID r' now'
                            (snd (GetCustomImageID r now p imageTerm)) imageTerm)))
            = calls (snd (GetCustomImageID r now p imageTerm))
              @ [GalleryNextPage (GallerySubscriptionID imageTerm)
                   (GalleryResourceGroupName imageTerm) (GalleryName imageTerm)
                   (Name imageTerm)]"
    by (simp add: res)
qed

theorem remote_failure_not_cached_witness:
  "cache_Get (imageCache ex_provider) 0 (GetLatestImageID_key ex_ctx ex_image) = None
   \<and> UseSIG ex_ctx
   \<and> NodeImageVersions_List ex_remote_failing (location ex_provider)
        (subscription ex_provider) = Inl ''service unavailable''
   \<and> GetLatestImageID ex_remote_failing 0 ex_ctx ex_provider ex_image
       = (Inl (Err ''service unavailable''),
          ex_provider\<lparr>calls := [NodeImageVersionsList ''westeurope'' ''sub'']\<rparr>)
   \<and> take 2 (calls (snd (GetLatestImageID ex_remote 5 ex_ctx
                (snd (GetLatestImageID ex_remote_failing 0 ex_ctx ex_provider ex_image))
                ex_image)))
       = [NodeImageVersionsList ''westeurope'' ''sub'',
          NodeImageVersionsList ''westeurope'' ''sub'']
   \<and> cache_Get (imageCache ex_provider) 0
        (GetLatestImageID_key (ex_ctx\<lparr>UseSIG := False\<rparr>) ex_image) = None
   \<and> \<not> UseSIG (ex_ctx\<lparr>UseSIG := False\<rparr>)
   \<and> pages (NewListPager ex_remote_failing (location ex_provider)
        (PublicGalleryURL ex_image) (ImageDefinition ex_image))
       = map Inr [[Some (ex_civ ''2024.01'' 1)]] @ Inl ''service unavailable'' # []
   \<and> GetLatestImageID ex_remote_failing 0 (ex_ctx\<lparr>UseSIG := False\<rparr>) ex_provider ex_image
       = (Inl (Err ''service unavailable''),
          ex_provider\<lparr>calls :=
            [CommunityNextPage ''westeurope'' ''AKSUbuntu'' ''2204gen2containerd'',
             CommunityNextPage ''westeurope'' ''AKSUbuntu'' ''2204gen2containerd'']\<rparr>)
   \<and> take 3 (calls (snd (GetLatestImageID ex_remote 5 (ex_ctx\<lparr>UseSIG := False\<rparr>)
                (snd (GetLatestImageID ex_remote_failing 0 (ex_ctx\<lparr>UseSIG := False\<rparr>)
                        ex_provider ex_image))
                ex_image)))
       = [CommunityNextPage ''westeurope'' ''AKSUbuntu'' ''2204gen2containerd'',
          CommunityNextPage ''westeurope'' ''AKSUbuntu'' ''2204gen2containerd'',
          CommunityNextPage ''westeurope'' ''AKSUbuntu'' ''2204gen2containerd'']
   \<and> NewDefaultAzureCredential ex_remote_failing = None
   \<and> NewClientFactory ex_remote_failing ''gsub'' = None
   \<and> GalleryImageVersions_Get ex_remote_failing ''gsub'' ''grg'' ''gal'' ''img'' ''1.0.0''
       = Inl ''service unavailable''
   \<and> GetCustomImageID ex_remote_failing 0 ex_provider (ex_term\<lparr>Version := ''1.0.0''\<rparr>)
       = (Inl (Err ''service unavailable''),
          ex_provider\<lparr>calls := [GalleryGet ''gsub'' ''grg'' ''gal'' ''img'' ''1.0.0'']\<rparr>)
   \<and> take 2 (calls (snd (GetCustomImageID ex_remote 5
                (snd (GetCustomImageID ex_remote_failing 0 ex_provider
                        (ex_term\<lparr>Version := ''1.0.0''\<rparr>)))
                (ex_term\<lparr>Version := ''1.0.0''\<rparr>))))
       = [GalleryGet ''gsub'' ''grg'' ''gal'' ''img'' ''1.0.0'',
          GalleryGet ''gsub'' ''grg'' ''gal'' ''img'' ''1.0.0'']
   \<and> pages (NewListByGalleryImagePager ex_remote_failing ''gsub'' ''grg'' ''gal'' ''img'')
       = map Inr [[Some (ex_giv ''/img/1.0.0'' 1)]] @ Inl ''service unavailable'' # []
   \<and> GetCustomImageID ex_remote_failing 0 ex_provider ex_term
       = (Inl (Err ''service unavailable''),
          ex_provider\<lparr>calls := [GalleryNextPage ''gsub'' ''grg'' ''gal'' ''img'',
                                  GalleryNextPage ''gsub'' ''grg'' ''gal'' ''img'']\<rparr>)
   \<and> take 3 (calls (snd (GetCustomImageID ex_remote 5
                (snd (GetCustomImageID ex_remote_failing 0 ex_provider ex_term)) ex_term)))
       = [GalleryNextPage ''gsub'' ''grg'' ''gal'' ''img'',
          GalleryNextPage ''gsub'' ''grg'' ''gal'' ''img'',
          GalleryNextPage ''gsub'' ''grg'' ''gal'' ''img'']"
proof -
  let ?cig = "ex_ctx\<lparr>UseSIG := False\<rparr>"
  let ?pin = "ex_term\<lparr>Version := ''1.0.0''\<rparr>"
  have h1: "cache_Get (imageCache ex_provider) 0 (GetLatestImageID_key ex_ctx ex_image) = None"
    "UseSIG ex_ctx"
    "NodeImageVersions_List ex_remote_failing (location ex_provider)
        (subscription ex_provider) = Inl ''service unavailable''"
    by (simp_all add: ex_provider_def cache_Get_def ex_ctx_def ex_remote_failing_def)
  have h2: "cache_Get (imageCache ex_provider) 0 (GetLatestImageID_key ?cig ex_image) = None"
    "\<not> UseSIG ?cig"
    "pages (NewListPager ex_remote_failing (location ex_provider)
        (PublicGalleryURL ex_image) (ImageDefinition ex_image))
       = map Inr [[Some (ex_civ ''2024.01'' 1)]] @ Inl ''service unavailable'' # []"
    by (simp_all add: ex_provider_def cache_Get_def ex_remote_failing_def pages_def)
  have h3: "cache_Get (imageCache ex_provider) 0 (GetCustomImageID_key ?pin) = None"
    "cache_Get (imageCache ex_provider) 0 (GetCustomImageID_key ex_term) = None"
    "NewDefaultAzureCredential ex_remote_failing = None"
    "NewClientFactory ex_remote_failing ''gsub'' = None"
    "GalleryImageVersions_Get ex_remote_failing ''gsub'' ''grg'' ''gal'' ''img'' ''1.0.0''
       = Inl ''service unavailable''"
    "pages (NewListByGalleryImagePager ex_remote_failing ''gsub'' ''grg'' ''gal'' ''img'')
       = map Inr [[Some (ex_giv ''/img/1.0.0'' 1)]] @ Inl ''service unavailable'' # []"
    by (simp_all add: ex_provider_def cache_Get_def ex_remote_failing_def ex_remote_def
          pages_def)
  have ok: "NewDefaultAzureCredential ex_remote = None"
    "NewClientFactory ex_remote ''gsub'' = None"
    by (simp_all add: ex_remote_def)
  have a: "GetLatestImageID ex_remote_failing 0 ex_ctx ex_provider ex_image
       = (Inl (Err ''service unavailable''),
          ex_provider\<lparr>calls := [NodeImageVersionsList ''westeurope'' ''sub'']\<rparr>)
     \<and> take 2 (calls (snd (GetLatestImageID ex_remote 5 ex_ctx
                (snd (GetLatestImageID ex_remote_failing 0 ex_ctx ex_provider ex_image))
                ex_image)))
       = [NodeImageVersionsList ''westeurope'' ''sub'',
          NodeImageVersionsList ''westeurope'' ''sub'']"
    using remote_failure_not_cached[where p = ex_provider and now = 0
        and ctx = ex_ctx and defaultImage = ex_image and r = ex_remote_failing
        and e = "''service unavailable''" and r' = ex_remote and now' = 5,
        THEN conjunct1] h1
    by (auto simp: ex_provider_def numeral_2_eq_2)
  have b: "GetLatestImageID ex_remote_failing 0 ?cig ex_provider ex_image
       = (Inl (Err ''service unavailable''),
          ex_provider\<lparr>calls :=
            [CommunityNextPage ''westeurope'' ''AKSUbuntu'' ''2204gen2containerd'',
             CommunityNextPage ''westeurope'' ''AKSUbuntu'' ''2204gen2containerd'']\<rparr>)
     \<and> take 3 (calls (snd (GetLatestImageID ex_remote 5 ?cig
                (snd (GetLatestImageID ex_remote_failing 0 ?cig ex_provider ex_image))
                ex_image)))
       = [CommunityNextPage ''westeurope'' ''AKSUbuntu'' ''2204gen2containerd'',
          CommunityNextPage ''westeurope'' ''AKSUbuntu'' ''2204gen2containerd'',
          CommunityNextPage ''westeurope'' ''AKSUbuntu'' ''2204gen2containerd'']"
    using remote_failure_not_cached[where p = ex_provider
        and now = 0 and ctx = ?cig and defaultImage = ex_image and r = ex_remote_failing
        and cvss = "[[Some (ex_civ ''2024.01'' 1)]]" and e = "''service unavailable''"
        and crest = "[]" and cvs = "[ex_civ ''2024.01'' 1]" and r' = ex_remote
        and now' = 5, THEN conjunct2, THEN conjunct1] h2
    by (auto simp: ex_provider_def ex_image_def ex_civ_def civ_PublishedDate_def
          numeral_3_eq_3)
  have c: "GetCustomImageID ex_remote_failing 0 ex_provider ?pin
       = (Inl (Err ''service unavailable''),
          ex_provider\<lparr>calls := [GalleryGet ''gsub'' ''grg'' ''gal'' ''img'' ''1.0.0'']\<rparr>)
     \<and> take 2 (calls (snd (GetCustomImageID ex_remote 5
                (snd (GetCustomImageID ex_remote_failing 0 ex_provider ?pin)) ?pin)))
       = [GalleryGet ''gsub'' ''grg'' ''gal'' ''img'' ''1.0.0'',
          GalleryGet ''gsub'' ''grg'' ''gal'' ''img'' ''1.0.0'']"
    using remote_failure_not_cached[where p = ex_provider and now = 0
        and imageTerm = ?pin and r = ex_remote_failing
        and e = "''service unavailable''" and r' = ex_remote and now' = 5,
        THEN conjunct2, THEN conjunct2, THEN conjunct1] h3(1,3,4,5) ok
    by (auto simp: ex_provider_def ex_term_def numeral_2_eq_2)
  have d: "GetCustomImageID ex_remote_failing 0 ex_provider ex_term
       = (Inl (Err ''service unavailable''),
          ex_provider\<lparr>calls := [GalleryNextPage ''gsub'' ''grg'' ''gal'' ''img'',
                                  GalleryNextPage ''gsub'' ''grg'' ''gal'' ''img'']\<rparr>)
     \<and> take 3 (calls (snd (GetCustomImageID ex_remote 5
                (snd (GetCustomImageID ex_remote_failing 0 ex_provider ex_term)) ex_term)))
       = [GalleryNextPage ''gsub'' ''grg'' ''gal'' ''img'',
          GalleryNextPage ''gsub'' ''grg'' ''gal'' ''img'',
          GalleryNextPage ''gsub'' ''grg'' ''gal'' ''img'']"
    using remote_failure_not_cached[where p = ex_provider and now = 0 and imageTerm = ex_term
        and r = ex_remote_failing and gvss = "[[Some (ex_giv ''/img/1.0.0'' 1)]]"
        and e = "''service unavailable''" and grest = "[]"
        and gvs = "[ex_giv ''/img/1.0.0'' 1]" and r' = ex_remote and now' = 5,
        THEN conjunct2, THEN conjunct2, THEN conjunct2]
        h3(2,3,4,6) ok
    by (auto simp: ex_provider_def ex_term_def ex_giv_def giv_PublishedDate_def
          numeral_3_eq_3)
  from h1 h2 h3(3-6) a b c d show ?thesis by blast
qed

section \<open>The default path of the orchestrator\<close>

lemma getCIGImageID_first_call:
  "take (Suc (length (calls p))) (calls (snd (getCIGImageID r p g n)))
     = calls p @ [CommunityNextPage (location p) g n]"
  using pager_loop_first_call[of "calls p" "CommunityNextPage (location p) g n"
      community_scan CommunityGalleryImageVersion_zero "NewListPager r (location p) g n"]
  by (simp add: getCIGImageID_snd latestNodeImageVersionCommunity_def Let_def
        case_prod_beta)

text \<open>
  Claim C5. On the default path \<open>Get\<close> selects the first catalog entry, in declared
  order, whose requirements \<open>Compatible\<close> accepts under the option
  \<open>AllowUndefinedWellKnownAndRestrictedLabels\<close>: its result is the resolver's result
  for that entry paired with that entry's distro, the first remote call it issues is the
  listing for that entry, and entries after it play no part. When no entry is accepted,
  \<open>Get\<close> fails with the error "no compatible images found for instance type" followed
  by the instance type's name, and changes nothing.
\<close>

theorem Get_selects_first_compatible:
  assumes "CustomImageTerm nodeClassSpec = CustomImageTerm_zero"
  shows "(imageFamily = pre @ matched # post
            \<and> (\<forall>d\<in>set pre. Compatible (it_Requirements instanceType) (Requirements d)
                    [AllowUndefinedWellKnownAndRestrictedLabels] \<noteq> None)
            \<and> Compatible (it_Requirements instanceType) (Requirements matched)
                    [AllowUndefinedWellKnownAndRestrictedLabels] = None
          \<longrightarrow> Get r Compatible now ctx p nodeClassSpec instanceType imageFamily
                = (case getCIGImageID r p (ImageDefinition matched)
                          (PublicGalleryURL matched) of
                     (Inl f, p') \<Rightarrow> (Inl f, p')
                   | (Inr imageID, p') \<Rightarrow> (Inr (Distro matched, imageID), p'))
            \<and> take (Suc (length (calls p)))
                 (calls (snd (Get r Compatible now ctx p nodeClassSpec instanceType
                                imageFamily)))
                = calls p @ [CommunityNextPage (location p) (ImageDefinition matched)
                               (PublicGalleryURL matched)]
            \<and> Get r Compatible now ctx p nodeClassSpec instanceType imageFamily
                = Get r Compatible now ctx p nodeClassSpec instanceType [matched]
            \<and> (\<forall>distro imageID.
                  fst (Get r Compatible now ctx p nodeClassSpec instanceType imageFamily)
                    = Inr (distro, imageID) \<longrightarrow> distro = Distro matched))
       \<and> ((\<forall>d\<in>set imageFamily. Compatible (it_Requirements instanceType) (Requirements d)
                    [AllowUndefinedWellKnownAndRestrictedLabels] \<noteq> None)
          \<longrightarrow> Get r Compatible now ctx p nodeClassSpec instanceType imageFamily
                = (Inl (Err (''no compatible images found for instance type ''
                             @ it_Name instanceType)), p))"
proof -
  let ?P = "\<lambda>d. Compatible (it_Requirements instanceType) (Requirements d)
                    [AllowUndefinedWellKnownAndRestrictedLabels] = None"
  have sel: "Get r Compatible now ctx p nodeClassSpec instanceType fam
               = (case getCIGImageID r p (ImageDefinition d) (PublicGalleryURL d) of
                    (Inl f, p') \<Rightarrow> (Inl f, p')
                  | (Inr imageID, p') \<Rightarrow> (Inr (Distro d, imageID), p'))"
    if "find ?P fam = Some d" for fam d
    using that assms by (simp add: Get_def Get_defaultImages_find)
  show ?thesis
  proof (intro conjI impI allI)
    assume H: "imageFamily = pre @ matched # post
            \<and> (\<forall>d\<in>set pre. Compatible (it_Requirements instanceType) (Requirements d)
                    [AllowUndefinedWellKnownAndRestrictedLabels] \<noteq> None)
            \<and> Compatible (it_Requirements instanceType) (Requirements matched)
                    [AllowUndefinedWellKnownAndRestrictedLabels] = None"
    then have "find ?P (pre @ matched # post) = Some matched"
      by (intro find_first_match) auto
    with H have 1: "find ?P imageFamily = Some matched" by simp
    from H have 2: "find ?P [matched] = Some matched" by simp
    show "Get r Compatible now ctx p nodeClassSpec instanceType imageFamily
                = (case getCIGImageID r p (ImageDefinition matched)
                          (PublicGalleryURL matched) of
                     (Inl f, p') \<Rightarrow> (Inl f, p')
                   | (Inr imageID, p') \<Rightarrow> (Inr (Distro matched, imageID), p'))"
      by (rule sel[OF 1])
    have "snd (Get r Compatible now ctx p nodeClassSpec instanceType imageFamily)
            = snd (getCIGImageID r p (ImageDefinition matched) (PublicGalleryURL matched))"
      by (simp add: sel[OF 1] split: prod.splits sum.splits)
    then show "take (Suc (length (calls p)))
                 (calls (snd (Get r Compatible now ctx p nodeClassSpec instanceType
                                imageFamily)))
                = calls p @ [CommunityNextPage (location p) (ImageDefinition matched)
                               (PublicGalleryURL matched)]"
      by (simp only: getCIGImageID_first_call)
    show "Get r Compatible now ctx p nodeClassSpec instanceType imageFamily
                = Get r Compatible now ctx p nodeClassSpec instanceType [matched]"
      by (simp only: sel[OF 1] sel[OF 2])
    fix distro imageID
    assume "fst (Get r Compatible now ctx p nodeClassSpec instanceType imageFamily)
              = Inr (distro, imageID)"
    then show "distro = Distro matched"
      by (auto simp: sel[OF 1] split: prod.splits sum.splits)
  next
    assume "\<forall>d\<in>set imageFamily. Compatible (it_Requirements instanceType) (Requirements d)
                    [AllowUndefinedWellKnownAndRestrictedLabels] \<noteq> None"
    then have "find ?P imageFamily = None"
      by (auto simp: find_None_iff)
    then show "Get r Compatible now ctx p nodeClassSpec instanceType imageFamily
                = (Inl (Err (''no compatible images found for instance type ''
                             @ it_Name instanceType)), p)"
      using assms by (simp add: Get_def Get_defaultImages_find)
  qed
qed

theorem Get_selects_first_compatible_witness:
  "CustomImageTerm ex_default = CustomImageTerm_zero
   \<and> ex_Compatible (it_Requirements ex_instance) (Requirements ex_arm_image)
        [AllowUndefinedWellKnownAndRestrictedLabels] \<noteq> None
   \<and> ex_Compatible (it_Requirements ex_instance) (Requirements ex_image)
        [AllowUndefinedWellKnownAndRestrictedLabels] = None
   \<and> Get (ex_remote_published ''2024.03'' 5) ex_Compatible 0 ex_ctx ex_provider ex_default
        ex_instance [ex_arm_image, ex_image, ex_image\<lparr>Distro := ''other''\<rparr>]
       = (Inr (''aks-ubuntu-containerd-22.04-gen2'',
               ''/CommunityGalleries/2204gen2containerd/images/AKSUbuntu/versions/2024.03''),
          ex_provider\<lparr>calls :=
            [CommunityNextPage ''westeurope'' ''2204gen2containerd'' ''AKSUbuntu'']\<rparr>)
   \<and> Get ex_remote ex_Compatible 0 ex_ctx ex_provider ex_default ex_instance [ex_arm_image]
       = (Inl (Err ''no compatible images found for instance type Standard_D2s_v3''),
          ex_provider)"
proof -
  have h: "CustomImageTerm ex_default = CustomImageTerm_zero"
    "ex_Compatible (it_Requirements ex_instance) (Requirements ex_arm_image)
        [AllowUndefinedWellKnownAndRestrictedLabels] \<noteq> None"
    "ex_Compatible (it_Requirements ex_instance) (Requirements ex_image)
        [AllowUndefinedWellKnownAndRestrictedLabels] = None"
    by (simp_all add: ex_default_def ex_Compatible_def ex_instance_def ex_arm_image_def
          ex_image_def)
  have g: "getCIGImageID (ex_remote_published ''2024.03'' 5) ex_provider
             (ImageDefinition ex_image) (PublicGalleryURL ex_image)
       = (Inr ''/CommunityGalleries/2204gen2containerd/images/AKSUbuntu/versions/2024.03'',
          ex_provider\<lparr>calls :=
            [CommunityNextPage ''westeurope'' ''2204gen2containerd'' ''AKSUbuntu'']\<rparr>)"
    by (simp add: model_eval ex_remote_published_def ex_remote_def ex_provider_def
          ex_image_def ex_civ_def)
  have a: "Get (ex_remote_published ''2024.03'' 5) ex_Compatible 0 ex_ctx ex_provider
        ex_default ex_instance [ex_arm_image, ex_image, ex_image\<lparr>Distro := ''other''\<rparr>]
       = (Inr (''aks-ubuntu-containerd-22.04-gen2'',
               ''/CommunityGalleries/2204gen2containerd/images/AKSUbuntu/versions/2024.03''),
          ex_provider\<lparr>calls :=
            [CommunityNextPage ''westeurope'' ''2204gen2containerd'' ''AKSUbuntu'']\<rparr>)"
    using Get_selects_first_compatible[OF h(1),
        of "[ex_arm_image, ex_image, ex_image\<lparr>Distro := ''other''\<rparr>]"
        "[ex_arm_image]" ex_image "[ex_image\<lparr>Distro := ''other''\<rparr>]" ex_Compatible
        ex_instance "ex_remote_published ''2024.03'' 5" 0 ex_ctx ex_provider,
        THEN conjunct1] h(2,3) g
    by (simp add: ex_image_def)
  have b: "Get ex_remote ex_Compatible 0 ex_ctx ex_provider ex_default ex_instance [ex_arm_image]
       = (Inl (Err ''no compatible images found for instance type Standard_D2s_v3''),
          ex_provider)"
    using Get_selects_first_compatible[OF h(1), of "[ex_arm_image]" _ _ _ ex_Compatible
        ex_instance ex_remote 0 ex_ctx ex_provider, THEN conjunct2] h(2)
    by (simp add: ex_instance_def)
  from h a b show ?thesis by blast
qed

text \<open>
  Claim C3. On the default path \<open>Get\<close> does not go through the image cache: a
  second call with the same inputs, one nanosecond after a successful first call, issues
  the community listing call again, and when the gallery has published a new version in
  between it returns another image id. On the custom path of the same function the
  second call returns the first call's id from the cache without any remote call, even
  with every remote lookup failing.
\<close>

theorem Get_default_path_not_idempotent:
  "Get (ex_remote_published ''2024.03'' 5) ex_Compatible 0 ex_ctx ex_provider ex_default
     ex_instance [ex_image]
     = (Inr (''aks-ubuntu-containerd-22.04-gen2'',
             ''/CommunityGalleries/2204gen2containerd/images/AKSUbuntu/versions/2024.03''),
        ex_provider\<lparr>calls :=
          [CommunityNextPage ''westeurope'' ''2204gen2containerd'' ''AKSUbuntu'']\<rparr>)
   \<and> Get (ex_remote_published ''2024.03'' 5) ex_Compatible 1 ex_ctx
       (ex_provider\<lparr>calls :=
          [CommunityNextPage ''westeurope'' ''2204gen2containerd'' ''AKSUbuntu'']\<rparr>)
       ex_default ex_instance [ex_image]
     = (Inr (''aks-ubuntu-containerd-22.04-gen2'',
             ''/CommunityGalleries/2204gen2containerd/images/AKSUbuntu/versions/2024.03''),
        ex_provider\<lparr>calls :=
          [CommunityNextPage ''westeurope'' ''2204gen2containerd'' ''AKSUbuntu'',
           CommunityNextPage ''westeurope'' ''2204gen2containerd'' ''AKSUbuntu'']\<rparr>)
   \<and> Get (ex_remote_published ''2024.04'' 9) ex_Compatible 1 ex_ctx
       (ex_provider\<lparr>calls :=
          [CommunityNextPage ''westeurope'' ''2204gen2containerd'' ''AKSUbuntu'']\<rparr>)
       ex_default ex_instance [ex_image]
     = (Inr (''aks-ubuntu-containerd-22.04-gen2'',
             ''/CommunityGalleries/2204gen2containerd/images/AKSUbuntu/versions/2024.04''),
        ex_provider\<lparr>calls :=
          [CommunityNextPage ''westeurope'' ''2204gen2containerd'' ''AKSUbuntu'',
           CommunityNextPage ''westeurope'' ''2204gen2containerd'' ''AKSUbuntu'']\<rparr>)
   \<and> (1::int) < 0 + imageExpirationInterval
   \<and> fst (Get ex_remote ex_Compatible 0 ex_ctx ex_provider ex_custom ex_instance [ex_image])
     = Inr (''aks-ubuntu-containerd-22.04-gen2'', ''/img/3.0.0'')
   \<and> Get ex_remote_failing ex_Compatible 1 ex_ctx
       (snd (Get ex_remote ex_Compatible 0 ex_ctx ex_provider ex_custom ex_instance
               [ex_image]))
       ex_custom ex_instance [ex_image]
     = (Inr (''aks-ubuntu-containerd-22.04-gen2'', ''/img/3.0.0''),
        snd (Get ex_remote ex_Compatible 0 ex_ctx ex_provider ex_custom ex_instance
               [ex_image]))"
  by (simp add: model_eval ex_remote_published_def ex_remote_failing_def ex_remote_def
        ex_provider_def ex_ctx_def ex_default_def ex_custom_def ex_term_def ex_instance_def
        ex_image_def ex_Compatible_def ex_civ_def ex_giv_def)

end
